theory Spec2Isabelle
  imports Complex_Main "HOL-Library.Multiset"
begin

section \<open>Column auto-mapping (utils/column\_mapper.py)\<close>

text \<open>
  The theory embeds the class \<open>ColumnMapper\<close> of \<open>utils/column_mapper.py\<close>.

  Conventions of the embedding.
  \<^item> A Python \<open>str\<close> is a \<open>string\<close>; a character outside ASCII is written as the
    bytes of its UTF-8 encoding (the Korean aliases of the catalogs). Equality and the
    removal of ASCII characters agree with Python's on such strings.
  \<^item> A Python \<open>dict\<close> is an association list in insertion order with one entry per key;
    \<open>dict_set\<close> is the assignment \<open>d[k] = v\<close>. The score vector of the type scorer,
    which is only read by key, is a map \<open>string \<rightharpoonup> int\<close>.
  \<^item> A Python \<open>float\<close> is an exact rational (\<open>rat\<close>): rounding errors of the binary
    representation are not modelled.
  \<^item> An exception is a value \<open>Inl e\<close> of the result type \<open>error + 'a\<close>.
  \<^item> The library calls whose code is not part of the repository are parameters, the
    fields of the record \<open>library\<close>: \<open>fuzz.ratio\<close> of fuzzywuzzy,
    \<open>pd.to_datetime\<close> of pandas and \<open>str\<close> on a number. The properties hold for
    every value of these parameters.
\<close>

subsection \<open>Errors and dictionaries\<close>

datatype error = ValueError string | KeyError string | AttributeError string

fun dict_set :: "'k \<Rightarrow> 'v \<Rightarrow> ('k \<times> 'v) list \<Rightarrow> ('k \<times> 'v) list" where
  "dict_set k v [] = [(k, v)]"
| "dict_set k v ((k', v') # d) = (if k' = k then (k, v) # d else (k', v') # dict_set k v d)"

fun join :: "string \<Rightarrow> string list \<Rightarrow> string" where
  "join sep [] = []"
| "join sep [x] = x"
| "join sep (x # y # ys) = x @ sep @ join sep (y # ys)"

subsection \<open>Class constants and schema catalogs\<close>

definition MIN_SIMILARITY_THRESHOLD :: nat where "MIN_SIMILARITY_THRESHOLD = 50"
definition ID_UNIQUE_RATIO_THRESHOLD :: rat where "ID_UNIQUE_RATIO_THRESHOLD = 9 / 10"
definition DATE_PARSE_RATIO_THRESHOLD :: rat where "DATE_PARSE_RATIO_THRESHOLD = 7 / 10"
definition TEXT_LENGTH_LONG :: rat where "TEXT_LENGTH_LONG = 50"
definition TEXT_LENGTH_MEDIUM :: rat where "TEXT_LENGTH_MEDIUM = 20"
definition SCORE_HIGH :: int where "SCORE_HIGH = 90"
definition SCORE_MEDIUM_HIGH :: int where "SCORE_MEDIUM_HIGH = 80"
definition SCORE_MEDIUM :: int where "SCORE_MEDIUM = 70"
definition SCORE_MEDIUM_LOW :: int where "SCORE_MEDIUM_LOW = 60"
definition SCORE_LOW :: int where "SCORE_LOW = 30"
definition RATING_MIN :: rat where "RATING_MIN = 0"
definition RATING_MAX :: rat where "RATING_MAX = 10"

record column_config =
  names :: "string list"
  type_tag :: string
  required :: bool

type_synonym catalog = "(string \<times> column_config) list"

definition ECOMMERCE_COLUMNS :: catalog where
  "ECOMMERCE_COLUMNS = [
    (''customerid'', \<lparr>names = [
        ''customerid'',
        ''customer_id'',
        ''customer'',
        ''cust_id'',
        ''user_id'',
        ''userid'',
        [CHR 0xEA, CHR 0xB3, CHR 0xA0, CHR 0xEA, CHR 0xB0, CHR 0x9D] @ ''ID'',
        [CHR 0xEA, CHR 0xB3, CHR 0xA0, CHR 0xEA, CHR 0xB0, CHR 0x9D, CHR 0xEC, CHR 0x95, CHR 0x84, CHR 0xEC, CHR 0x9D, CHR 0xB4, CHR 0xEB, CHR 0x94, CHR 0x94],
        [CHR 0xED, CHR 0x9A, CHR 0x8C, CHR 0xEC, CHR 0x9B, CHR 0x90] @ ''ID''],
      type_tag = ''id'', required = True\<rparr>),
    (''invoicedate'', \<lparr>names = [
        ''invoicedate'',
        ''invoice_date'',
        ''date'',
        ''order_date'',
        ''orderdate'',
        ''purchase_date'',
        [CHR 0xEC, CHR 0xA3, CHR 0xBC, CHR 0xEB, CHR 0xAC, CHR 0xB8, CHR 0xEC, CHR 0x9D, CHR 0xBC],
        [CHR 0xEA, CHR 0xB5, CHR 0xAC, CHR 0xEB, CHR 0xA7, CHR 0xA4, CHR 0xEC, CHR 0x9D, CHR 0xBC],
        [CHR 0xEB, CHR 0x82, CHR 0xA0, CHR 0xEC, CHR 0xA7, CHR 0x9C]],
      type_tag = ''date'', required = True\<rparr>),
    (''quantity'', \<lparr>names = [
        ''quantity'',
        ''qty'',
        ''amount'',
        ''count'',
        [CHR 0xEC, CHR 0x88, CHR 0x98, CHR 0xEB, CHR 0x9F, CHR 0x89],
        [CHR 0xEA, CHR 0xB0, CHR 0x9C, CHR 0xEC, CHR 0x88, CHR 0x98]],
      type_tag = ''numeric'', required = True\<rparr>),
    (''unitprice'', \<lparr>names = [
        ''unitprice'',
        ''unit_price'',
        ''price'',
        ''amount'',
        [CHR 0xEA, CHR 0xB0, CHR 0x80, CHR 0xEA, CHR 0xB2, CHR 0xA9],
        [CHR 0xEB, CHR 0x8B, CHR 0xA8, CHR 0xEA, CHR 0xB0, CHR 0x80],
        [CHR 0xEA, CHR 0xB8, CHR 0x88, CHR 0xEC, CHR 0x95, CHR 0xA1]],
      type_tag = ''numeric'', required = True\<rparr>)]"

definition REVIEW_COLUMNS :: catalog where
  "REVIEW_COLUMNS = [
    (''review_text'', \<lparr>names = [
        ''review'',
        ''text'',
        ''comment'',
        ''review_text'',
        ''content'',
        [CHR 0xEB, CHR 0xA6, CHR 0xAC, CHR 0xEB, CHR 0xB7, CHR 0xB0],
        [CHR 0xEB, CHR 0x82, CHR 0xB4, CHR 0xEC, CHR 0x9A, CHR 0xA9],
        [CHR 0xEB, CHR 0x8C, CHR 0x93, CHR 0xEA, CHR 0xB8, CHR 0x80],
        [CHR 0xED, CHR 0x8F, CHR 0x89, CHR 0xEA, CHR 0xB0, CHR 0x80]],
      type_tag = ''text'', required = True\<rparr>),
    (''rating'', \<lparr>names = [
        ''rating'',
        ''score'',
        ''star'',
        ''point'',
        [CHR 0xED, CHR 0x8F, CHR 0x89, CHR 0xEC, CHR 0xA0, CHR 0x90],
        [CHR 0xEB, CHR 0xB3, CHR 0x84, CHR 0xEC, CHR 0xA0, CHR 0x90],
        [CHR 0xEC, CHR 0xA0, CHR 0x90, CHR 0xEC, CHR 0x88, CHR 0x98]],
      type_tag = ''rating'', required = False\<rparr>),
    (''date'', \<lparr>names = [
        ''date'',
        ''review_date'',
        ''created_at'',
        [CHR 0xEB, CHR 0x82, CHR 0xA0, CHR 0xEC, CHR 0xA7, CHR 0x9C],
        [CHR 0xEC, CHR 0x9E, CHR 0x91, CHR 0xEC, CHR 0x84, CHR 0xB1, CHR 0xEC, CHR 0x9D, CHR 0xBC]],
      type_tag = ''date'', required = False\<rparr>)]"

definition SALES_COLUMNS :: catalog where
  "SALES_COLUMNS = [
    (''date'', \<lparr>names = [
        ''date'',
        ''sales_date'',
        ''order_date'',
        ''invoicedate'',
        [CHR 0xEB, CHR 0x82, CHR 0xA0, CHR 0xEC, CHR 0xA7, CHR 0x9C],
        [CHR 0xED, CHR 0x8C, CHR 0x90, CHR 0xEB, CHR 0xA7, CHR 0xA4, CHR 0xEC, CHR 0x9D, CHR 0xBC],
        [CHR 0xEC, CHR 0xA3, CHR 0xBC, CHR 0xEB, CHR 0xAC, CHR 0xB8, CHR 0xEC, CHR 0x9D, CHR 0xBC]],
      type_tag = ''date'', required = True\<rparr>),
    (''product'', \<lparr>names = [
        ''product'',
        ''product_name'',
        ''item'',
        ''description'',
        [CHR 0xEC, CHR 0x83, CHR 0x81, CHR 0xED, CHR 0x92, CHR 0x88],
        [CHR 0xEC, CHR 0xA0, CHR 0x9C, CHR 0xED, CHR 0x92, CHR 0x88],
        [CHR 0xEC, CHR 0x83, CHR 0x81, CHR 0xED, CHR 0x92, CHR 0x88, CHR 0xEB, CHR 0xAA, CHR 0x85]],
      type_tag = ''text'', required = True\<rparr>),
    (''quantity'', \<lparr>names = [
        ''quantity'',
        ''qty'',
        ''amount'',
        [CHR 0xEC, CHR 0x88, CHR 0x98, CHR 0xEB, CHR 0x9F, CHR 0x89],
        [CHR 0xEA, CHR 0xB0, CHR 0x9C, CHR 0xEC, CHR 0x88, CHR 0x98]],
      type_tag = ''numeric'', required = True\<rparr>),
    (''price'', \<lparr>names = [
        ''price'',
        ''unitprice'',
        ''unit_price'',
        ''amount'',
        [CHR 0xEA, CHR 0xB0, CHR 0x80, CHR 0xEA, CHR 0xB2, CHR 0xA9],
        [CHR 0xEB, CHR 0x8B, CHR 0xA8, CHR 0xEA, CHR 0xB0, CHR 0x80]],
      type_tag = ''numeric'', required = True\<rparr>)]"

definition AVAILABLE_DATA_TYPES :: "string list" where
  "AVAILABLE_DATA_TYPES = [''ecommerce'', ''review'', ''sales'']"

subsection \<open>Construction\<close>

record ColumnMapper =
  data_type :: string
  standard_columns :: catalog

definition init :: "string \<Rightarrow> error + ColumnMapper" where
  "init dt =
     (if dt = ''ecommerce'' then Inr \<lparr>data_type = dt, standard_columns = ECOMMERCE_COLUMNS\<rparr>
      else if dt = ''review'' then Inr \<lparr>data_type = dt, standard_columns = REVIEW_COLUMNS\<rparr>
      else if dt = ''sales'' then Inr \<lparr>data_type = dt, standard_columns = SALES_COLUMNS\<rparr>
      else Inl (ValueError (''Unknown data type: '' @ [CHR 0x27] @ dt @ [CHR 0x27] @ ''. ''
                  @ ''Available types: '' @ join '', '' AVAILABLE_DATA_TYPES)))"

subsection \<open>Name matcher\<close>

text \<open>
  \<open>str.lower\<close> is modelled on the ASCII letters; the other bytes are kept (Hangul has
  no case). Column names are strings, so the \<open>isinstance\<close> branch of
  \<open>normalize_column_name\<close> has no counterpart.
\<close>

definition lower_char :: "char \<Rightarrow> char" where
  "lower_char c =
     (case map_of (zip ''ABCDEFGHIJKLMNOPQRSTUVWXYZ'' ''abcdefghijklmnopqrstuvwxyz'') c of
        Some l \<Rightarrow> l
      | None \<Rightarrow> c)"

definition lower :: "string \<Rightarrow> string" where
  "lower s = map lower_char s"

definition replace_char :: "char \<Rightarrow> string \<Rightarrow> string" where
  "replace_char c s = filter (\<lambda>x. x \<noteq> c) s"

definition normalize_column_name :: "string \<Rightarrow> string" where
  "normalize_column_name col_name =
     (let normalized = lower col_name
      in replace_char CHR ''-'' (replace_char CHR ''_'' (replace_char CHR '' '' normalized)))"

text \<open>
  The library calls whose code is outside the repository: \<open>fuzz_ratio\<close> is
  \<open>fuzz.ratio\<close>, \<open>to_datetime\<close> is \<open>pd.to_datetime(sample, errors='coerce').notna()\<close>
  (\<open>None\<close> when the call raises the \<open>ValueError\<close> or \<open>TypeError\<close> that the caller
  catches), and \<open>str_number\<close> is \<open>str\<close> on a number.
\<close>

record library =
  fuzz_ratio :: "string \<Rightarrow> string \<Rightarrow> nat"
  to_datetime :: "string list \<Rightarrow> bool list option"
  str_number :: "rat \<Rightarrow> string"

definition calculate_similarity :: "library \<Rightarrow> string \<Rightarrow> string \<Rightarrow> nat" where
  "calculate_similarity lib user_col standard_col =
     (let user_normalized = normalize_column_name user_col;
          standard_normalized = normalize_column_name standard_col
      in fuzz_ratio lib user_normalized standard_normalized)"

text \<open>
  The two nested loops of \<open>find_best_match\<close> thread the pair
  \<open>(best_match, best_score)\<close>.
\<close>

definition best_step ::
  "library \<Rightarrow> string \<Rightarrow> string \<Rightarrow> string \<Rightarrow> string option \<times> nat
     \<Rightarrow> string option \<times> nat" where
  "best_step lib user_col std_col alias st =
     (let score = calculate_similarity lib user_col alias
      in if score > snd st then (Some std_col, score) else st)"

definition best_field ::
  "library \<Rightarrow> string \<Rightarrow> string \<times> column_config \<Rightarrow> string option \<times> nat
     \<Rightarrow> string option \<times> nat" where
  "best_field lib user_col item st = fold (best_step lib user_col (fst item)) (names (snd item)) st"

definition find_best_match ::
  "library \<Rightarrow> ColumnMapper \<Rightarrow> string \<Rightarrow> string option \<times> nat" where
  "find_best_match lib self user_col =
     (let (best_match, best_score) =
            fold (best_field lib user_col) (standard_columns self) (None, 0)
      in if best_score \<ge> MIN_SIMILARITY_THRESHOLD then (best_match, best_score) else (None, 0))"


subsection \<open>Dataframes\<close>

text \<open>
  A pandas column with a numeric dtype holds numbers and missing values; any other column
  is represented by the text \<open>str(v)\<close> of its cells; the first argument is the name of the
  dtype. \<open>nrows\<close> is \<open>len(df)\<close>.
  Column labels may repeat, as pandas allows.
\<close>

datatype series = NumericSeries string "rat option list" | ObjectSeries string "string option list"

record frame =
  nrows :: nat
  columns :: "(string \<times> series) list"

definition column_names :: "frame \<Rightarrow> string list" where
  "column_names df = map fst (columns df)"

subsection \<open>Mapping results\<close>

text \<open>
  One entry of a mapping result. The keys that only some entries carry
  (\<open>name_score\<close>, \<open>data_score\<close>, \<open>alternatives\<close>) are optional fields.
\<close>

record entry =
  user_column :: string
  confidence :: rat
  method_name :: string
  name_score :: "nat option"
  data_score :: "int option"
  alternatives :: "string list option"

type_synonym mapping = "(string \<times> entry) list"

text \<open>
  \<open>sorted(xs, key=..., reverse=True)\<close> is a stable sort in descending order of the key:
  elements with equal keys keep their order.
\<close>

definition sorted_reverse :: "('a \<Rightarrow> rat) \<Rightarrow> 'a list \<Rightarrow> 'a list" where
  "sorted_reverse key xs = sort_key (\<lambda>x. - key x) xs"

subsection \<open>Name-only mapping\<close>

definition add_candidate :: "'k \<Rightarrow> 'c \<Rightarrow> ('k \<times> 'c list) list \<Rightarrow> ('k \<times> 'c list) list" where
  "add_candidate std_col c candidates =
     (case map_of candidates std_col of
        None \<Rightarrow> dict_set std_col [c] candidates
      | Some cs \<Rightarrow> dict_set std_col (cs @ [c]) candidates)"

text \<open>The test \<open>if std_col:\<close> fails on \<open>None\<close> and on the empty string.\<close>

definition collect_fuzzy ::
  "library \<Rightarrow> ColumnMapper \<Rightarrow> string \<Rightarrow> (string \<times> (string \<times> nat) list) list
     \<Rightarrow> (string \<times> (string \<times> nat) list) list" where
  "collect_fuzzy lib self user_col candidates =
     (let (std_col, score) = find_best_match lib self user_col
      in case std_col of
           None \<Rightarrow> candidates
         | Some s \<Rightarrow> if s = [] then candidates else add_candidate s (user_col, score) candidates)"

text \<open>
  The body of the second loop. \<open>sorted_cols[0]\<close> raises \<open>IndexError\<close> on an empty
  list of candidates.
\<close>

datatype index_error = IndexError

fun resolve_fuzzy :: "(string \<times> nat) list \<Rightarrow> index_error + entry" where
  "resolve_fuzzy [(user_col, score)] =
     Inr \<lparr>user_column = user_col, confidence = of_nat score, method_name = ''fuzzy'',
          name_score = None, data_score = None, alternatives = None\<rparr>"
| "resolve_fuzzy user_cols =
     (case sorted_reverse (\<lambda>x. of_nat (snd x)) user_cols of
        [] \<Rightarrow> Inl IndexError
      | (best_col, best_score) # rest \<Rightarrow>
          Inr \<lparr>user_column = best_col, confidence = of_nat best_score, method_name = ''fuzzy'',
               name_score = None, data_score = None, alternatives = Some (map fst rest)\<rparr>)"

definition resolve_fuzzy_step ::
  "string \<times> (string \<times> nat) list \<Rightarrow> index_error + mapping \<Rightarrow> index_error + mapping" where
  "resolve_fuzzy_step item acc =
     (case acc of
        Inl e \<Rightarrow> Inl e
      | Inr mapping_result \<Rightarrow>
          (case resolve_fuzzy (snd item) of
             Inl e \<Rightarrow> Inl e
           | Inr en \<Rightarrow> Inr (dict_set (fst item) en mapping_result)))"

definition auto_map_columns ::
  "library \<Rightarrow> ColumnMapper \<Rightarrow> frame \<Rightarrow> index_error + mapping" where
  "auto_map_columns lib self df =
     (let candidates = fold (collect_fuzzy lib self) (column_names df) []
      in fold resolve_fuzzy_step candidates (Inr []))"

subsection \<open>Validation\<close>

definition get_missing_columns :: "ColumnMapper \<Rightarrow> mapping \<Rightarrow> string list" where
  "get_missing_columns self mapping =
     map fst (filter (\<lambda>(std_col, config). required config \<and> std_col \<notin> fst ` set mapping)
                (standard_columns self))"

text \<open>The message \<open>f"..."\<close> of a missing column: the column's name between two fixed texts.\<close>

definition missing_prefix :: string where
  "missing_prefix = [CHR 0xED, CHR 0x95, CHR 0x84, CHR 0xEC, CHR 0x88, CHR 0x98] @ '' ''
     @ [CHR 0xEC, CHR 0xBB, CHR 0xAC, CHR 0xEB, CHR 0x9F, CHR 0xBC] @ '' '' @ [CHR 0x27]"

definition missing_suffix :: string where
  "missing_suffix = [CHR 0x27] @ [CHR 0xEC, CHR 0x9D, CHR 0xB4] @ ''('' @ [CHR 0xEA, CHR 0xB0, CHR 0x80]
     @ '') '' @ [CHR 0xEB, CHR 0xA7, CHR 0xA4, CHR 0xED, CHR 0x95, CHR 0x91, CHR 0xEB, CHR 0x90, CHR 0x98,
                 CHR 0xEC, CHR 0xA7, CHR 0x80]
     @ '' '' @ [CHR 0xEC, CHR 0x95, CHR 0x8A, CHR 0xEC, CHR 0x95, CHR 0x98, CHR 0xEC, CHR 0x8A, CHR 0xB5,
                CHR 0xEB, CHR 0x8B, CHR 0x88, CHR 0xEB, CHR 0x8B, CHR 0xA4] @ ''.''"

definition missing_message :: "string \<Rightarrow> string" where
  "missing_message col = missing_prefix @ col @ missing_suffix"

definition validate_mapping :: "ColumnMapper \<Rightarrow> mapping \<Rightarrow> bool \<times> string list" where
  "validate_mapping self mapping =
     (let missing = get_missing_columns self mapping
      in if missing \<noteq> [] then (False, map missing_message missing) else (True, []))"


subsection \<open>Column profiler\<close>

record analysis =
  dtype :: string
  unique_ratio :: rat
  missing_ratio :: rat
  is_date :: bool
  is_numeric :: bool
  is_id :: bool
  numeric_range :: "(rat \<times> rat \<times> rat) option"
  avg_length :: "rat option"

text \<open>
  \<open>df[col_name]\<close> raises \<open>KeyError\<close> for an unknown label. For a label that several
  columns carry it is a dataframe, and the attribute \<open>dtype\<close> read next raises
  \<open>AttributeError\<close>.
\<close>

definition get_column :: "frame \<Rightarrow> string \<Rightarrow> error + series" where
  "get_column df col_name =
     (case filter (\<lambda>c. fst c = col_name) (columns df) of
        [] \<Rightarrow> Inl (KeyError col_name)
      | [c] \<Rightarrow> Inr (snd c)
      | _ \<Rightarrow> Inl (AttributeError ''dtype''))"

fun dropna :: "'a option list \<Rightarrow> 'a list" where
  "dropna [] = []"
| "dropna (None # xs) = dropna xs"
| "dropna (Some x # xs) = x # dropna xs"

definition nunique :: "series \<Rightarrow> nat" where
  "nunique s =
     (case s of
        NumericSeries dt xs \<Rightarrow> length (remdups (dropna xs))
      | ObjectSeries dt xs \<Rightarrow> length (remdups (dropna xs)))"

definition isna_sum :: "series \<Rightarrow> nat" where
  "isna_sum s =
     (case s of
        NumericSeries dt xs \<Rightarrow> length (filter (\<lambda>x. x = None) xs)
      | ObjectSeries dt xs \<Rightarrow> length (filter (\<lambda>x. x = None) xs))"

definition series_dtype :: "series \<Rightarrow> string" where
  "series_dtype s = (case s of NumericSeries dt xs \<Rightarrow> dt | ObjectSeries dt xs \<Rightarrow> dt)"

text \<open>
  \<open>(min, max, mean)\<close> of the values that are not missing; \<open>None\<close> when
  \<open>col_data.isna().all()\<close>, that is, when there is no such value.
\<close>

definition range_of :: "rat list \<Rightarrow> (rat \<times> rat \<times> rat) option" where
  "range_of vs =
     (case vs of
        [] \<Rightarrow> None
      | v # ws \<Rightarrow> Some (fold min ws v, fold max ws v, sum_list vs / of_nat (length vs)))"

text \<open>\<open>len\<close> of a string counts code points: the bytes that do not continue a UTF-8 sequence.\<close>

definition str_len :: "string \<Rightarrow> nat" where
  "str_len s = length (filter (\<lambda>c. \<not> (128 \<le> (of_char c :: nat) \<and> (of_char c :: nat) < 192)) s)"

definition mean_length :: "string list \<Rightarrow> rat" where
  "mean_length sample = of_nat (sum_list (map str_len sample)) / of_nat (length sample)"

definition detect_date :: "library \<Rightarrow> string list \<Rightarrow> bool" where
  "detect_date lib sample =
     (case to_datetime lib sample of
        None \<Rightarrow> False
      | Some parsed \<Rightarrow>
          (let valid_dates = length (filter (\<lambda>b. b) parsed)
           in of_nat valid_dates / of_nat (length sample) \<ge> DATE_PARSE_RATIO_THRESHOLD))"

definition analyze_column_data :: "library \<Rightarrow> frame \<Rightarrow> string \<Rightarrow> error + analysis" where
  "analyze_column_data lib df col_name =
     (case get_column df col_name of
        Inl e \<Rightarrow> Inl e
      | Inr col_data \<Rightarrow>
          (let total_rows = nrows df;
               result = \<lparr>dtype = series_dtype col_data,
                         unique_ratio = (if total_rows > 0
                                         then of_nat (nunique col_data) / of_nat total_rows else 0),
                         missing_ratio = (if total_rows > 0
                                          then of_nat (isna_sum col_data) / of_nat total_rows else 0),
                         is_date = False, is_numeric = False, is_id = False,
                         numeric_range = None, avg_length = None\<rparr>;
               result =
                 (case col_data of
                    NumericSeries dt xs \<Rightarrow>
                      result\<lparr>is_numeric := True, numeric_range := range_of (dropna xs)\<rparr>
                  | ObjectSeries dt xs \<Rightarrow>
                      (let sample = take 10 (dropna xs)
                       in if length sample > 0
                          then result\<lparr>is_date := detect_date lib sample,
                                      avg_length := Some (mean_length sample)\<rparr>
                          else result));
               result = (if unique_ratio result \<ge> ID_UNIQUE_RATIO_THRESHOLD
                         then result\<lparr>is_id := True\<rparr> else result)
           in Inr result))"

subsection \<open>Type scorer\<close>

text \<open>\<open>int(x)\<close> truncates towards zero.\<close>

definition py_int :: "rat \<Rightarrow> int" where
  "py_int x = (if x \<ge> 0 then \<lfloor>x\<rfloor> else \<lceil>x\<rceil>)"

definition text_score :: "rat \<Rightarrow> int" where
  "text_score avg =
     (if avg \<ge> TEXT_LENGTH_LONG then SCORE_MEDIUM_HIGH
      else if avg \<ge> TEXT_LENGTH_MEDIUM then SCORE_MEDIUM_LOW
      else SCORE_LOW)"

definition series_texts :: "library \<Rightarrow> series \<Rightarrow> string list" where
  "series_texts lib s =
     (case s of
        NumericSeries dt xs \<Rightarrow> map (str_number lib) (dropna xs)
      | ObjectSeries dt xs \<Rightarrow> dropna xs)"

text \<open>
  The three blocks of \<open>infer_column_type\<close>, in the order of the source: the block of
  the dates, which does not return, and then the two branches of \<open>if is_numeric ... else\<close>,
  one of which always runs.
\<close>

definition date_block :: "analysis \<Rightarrow> (string \<rightharpoonup> int) \<Rightarrow> (string \<rightharpoonup> int)" where
  "date_block a scores =
     (if is_date a
      then scores(''date'' \<mapsto> SCORE_HIGH,
                  ''id'' \<mapsto> (if is_id a then SCORE_LOW else 0),
                  ''numeric'' \<mapsto> 0, ''rating'' \<mapsto> 0, ''text'' \<mapsto> 0)
      else scores)"

definition numeric_block :: "analysis \<Rightarrow> (string \<rightharpoonup> int) \<Rightarrow> (string \<rightharpoonup> int)" where
  "numeric_block a scores =
     scores(''numeric'' \<mapsto> SCORE_MEDIUM_HIGH,
            ''rating'' \<mapsto> (case numeric_range a of
                               Some (min_val, max_val, mean_val) \<Rightarrow>
                                 (if RATING_MIN \<le> min_val \<and> max_val \<le> RATING_MAX
                                  then SCORE_MEDIUM else 0)
                             | None \<Rightarrow> 0),
            ''id'' \<mapsto> (if is_id a then SCORE_HIGH else py_int (unique_ratio a * 50)),
            ''text'' \<mapsto> 0, ''date'' \<mapsto> 0)"

text \<open>
  The fallback of the last branch reads \<open>df[col_name].dropna()\<close>. For a label that
  several columns carry this is a dataframe without the rows that have a missing value;
  when a row is left, the accessor \<open>.str\<close> raises \<open>AttributeError\<close>.
\<close>

definition isna :: "series \<Rightarrow> bool list" where
  "isna s =
     (case s of
        NumericSeries dt xs \<Rightarrow> map (\<lambda>x. x = None) xs
      | ObjectSeries dt xs \<Rightarrow> map (\<lambda>x. x = None) xs)"

definition complete_rows :: "nat \<Rightarrow> series list \<Rightarrow> nat" where
  "complete_rows n ss =
     length (filter (\<lambda>missing. \<not> missing)
               (fold (\<lambda>s acc. map (\<lambda>p. fst p \<or> snd p) (zip acc (isna s))) ss (replicate n False)))"

definition other_block ::
  "library \<Rightarrow> frame \<Rightarrow> string \<Rightarrow> analysis \<Rightarrow> (string \<rightharpoonup> int) \<Rightarrow> error + (string \<rightharpoonup> int)" where
  "other_block lib df col_name a scores =
     (let scores = scores(''numeric'' \<mapsto> 0, ''rating'' \<mapsto> 0,
                          ''id'' \<mapsto> (if is_id a then SCORE_MEDIUM_HIGH
                                       else py_int (unique_ratio a * 30)))
      in case avg_length a of
           Some avg \<Rightarrow> Inr (scores(''text'' \<mapsto> text_score avg, ''date'' \<mapsto> 0))
         | None \<Rightarrow>
             (case filter (\<lambda>c. fst c = col_name) (columns df) of
                [] \<Rightarrow> Inl (KeyError col_name)
              | [c] \<Rightarrow>
                  (let col_data = series_texts lib (snd c)
                   in if length col_data > 0
                      then Inr (scores(''text'' \<mapsto> text_score (mean_length col_data), ''date'' \<mapsto> 0))
                      else Inr (scores(''date'' \<mapsto> 0)))
              | c # cs \<Rightarrow>
                  (if complete_rows (nrows df) (map snd (c # cs)) > 0
                   then Inl (AttributeError ''str'')
                   else Inr (scores(''date'' \<mapsto> 0)))))"

definition infer_column_type ::
  "library \<Rightarrow> frame \<Rightarrow> string \<Rightarrow> analysis option \<Rightarrow> error + (string \<rightharpoonup> int)" where
  "infer_column_type lib df col_name analysis =
     (case (case analysis of None \<Rightarrow> analyze_column_data lib df col_name | Some a \<Rightarrow> Inr a) of
        Inl e \<Rightarrow> Inl e
      | Inr a \<Rightarrow>
          (let scores = date_block a Map.empty
           in if is_numeric a then Inr (numeric_block a scores)
              else other_block lib df col_name a scores))"


subsection \<open>Hybrid resolver\<close>

text \<open>
  Step 1 of \<open>hybrid_map_columns\<close> fills the cache \<open>column_analyses\<close>, one entry per
  user column, and step 2 reads the entry \<open>type_scores\<close> back. The cache is the function
  below; when the analysis raises, the entry holds the empty score vector. The log
  messages, and with them the parameter \<open>max_columns\<close>, have no effect on the result.
\<close>

definition column_type_scores :: "library \<Rightarrow> frame \<Rightarrow> string \<Rightarrow> (string \<rightharpoonup> int)" where
  "column_type_scores lib df user_col =
     (case analyze_column_data lib df user_col of
        Inl e \<Rightarrow> Map.empty
      | Inr a \<Rightarrow>
          (case infer_column_type lib df user_col (Some a) of
             Inl e \<Rightarrow> Map.empty
           | Inr type_scores \<Rightarrow> type_scores))"

text \<open>A candidate is \<open>(user_col, combined_score, (name_score, data_score))\<close>.\<close>

type_synonym candidate = "string \<times> rat \<times> nat \<times> int"

definition combined :: "candidate \<Rightarrow> rat" where
  "combined c = fst (snd c)"

definition best_name_score :: "library \<Rightarrow> column_config \<Rightarrow> string \<Rightarrow> nat" where
  "best_name_score lib config user_col =
     fold (\<lambda>alias name_score. max name_score (calculate_similarity lib user_col alias))
       (names config) 0"

definition field_candidate ::
  "library \<Rightarrow> frame \<Rightarrow> rat \<Rightarrow> rat \<Rightarrow> column_config \<Rightarrow> string \<Rightarrow> candidate list" where
  "field_candidate lib df name_weight data_weight config user_col =
     (let name_score = best_name_score lib config user_col;
          type_scores = column_type_scores lib df user_col;
          data_score = (case type_scores (type_tag config) of None \<Rightarrow> 0 | Some v \<Rightarrow> v);
          combined_score = of_nat name_score * name_weight + of_int data_score * data_weight
      in if combined_score \<ge> of_nat MIN_SIMILARITY_THRESHOLD
         then [(user_col, combined_score, name_score, data_score)]
         else [])"

definition field_candidates ::
  "library \<Rightarrow> frame \<Rightarrow> rat \<Rightarrow> rat \<Rightarrow> column_config \<Rightarrow> candidate list" where
  "field_candidates lib df name_weight data_weight config =
     concat (map (field_candidate lib df name_weight data_weight config) (column_names df))"

text \<open>\<open>round(x, 1)\<close>: to one decimal, a tie going to the even digit.\<close>

definition round_half_even :: "rat \<Rightarrow> int" where
  "round_half_even y =
     (let f = \<lfloor>y\<rfloor>; d = y - of_int f
      in if d < 1 / 2 then f else if d > 1 / 2 then f + 1 else if even f then f else f + 1)"

definition py_round1 :: "rat \<Rightarrow> rat" where
  "py_round1 x = of_int (round_half_even (x * 10)) / 10"

definition hybrid_entry :: "candidate \<Rightarrow> string list option \<Rightarrow> entry" where
  "hybrid_entry c alts =
     \<lparr>user_column = fst c, confidence = py_round1 (combined c), method_name = ''hybrid'',
      name_score = Some (fst (snd (snd c))), data_score = Some (snd (snd (snd c))),
      alternatives = alts\<rparr>"

text \<open>Step 3 for one standard field with at least one candidate.\<close>

definition resolve_hybrid :: "candidate list \<Rightarrow> entry" where
  "resolve_hybrid user_cols =
     (if length user_cols = 1 then hybrid_entry (hd user_cols) None
      else (let sorted_cols = sorted_reverse combined user_cols
            in hybrid_entry (hd sorted_cols) (Some (map fst (tl sorted_cols)))))"

definition resolve_hybrid_step :: "string \<times> candidate list \<Rightarrow> mapping \<Rightarrow> mapping" where
  "resolve_hybrid_step item mapping_result =
     (if length (snd item) = 0 then mapping_result
      else dict_set (fst item) (resolve_hybrid (snd item)) mapping_result)"

definition hybrid_candidates ::
  "library \<Rightarrow> ColumnMapper \<Rightarrow> frame \<Rightarrow> rat \<Rightarrow> rat \<Rightarrow> (string \<times> candidate list) list" where
  "hybrid_candidates lib self df name_weight data_weight =
     fold (\<lambda>item candidates.
             dict_set (fst item) (field_candidates lib df name_weight data_weight (snd item)) candidates)
       (standard_columns self) []"

definition hybrid_map_columns ::
  "library \<Rightarrow> ColumnMapper \<Rightarrow> frame \<Rightarrow> rat \<Rightarrow> rat \<Rightarrow> mapping" where
  "hybrid_map_columns lib self df name_weight data_weight =
     fold resolve_hybrid_step (hybrid_candidates lib self df name_weight data_weight) []"

definition get_mapping_confidence_level :: "rat \<Rightarrow> string" where
  "get_mapping_confidence_level c =
     (if c \<ge> 80 then ''high'' else if c \<ge> 65 then ''medium'' else ''low'')"

subsection \<open>Applying a mapping\<close>

text \<open>
  Dataframes are objects: the store is the list of the frames allocated so far, and a
  reference is an index below its length. \<open>df[mapped_cols]\<close> allocates a frame, \<open>.copy()\<close>
  allocates another one, and \<open>rename(..., inplace=True)\<close> overwrites the copy.
\<close>

type_synonym store = "frame list"

definition select_columns :: "frame \<Rightarrow> string list \<Rightarrow> error + frame" where
  "select_columns df cols =
     (case filter (\<lambda>c. c \<notin> set (column_names df)) cols of
        [] \<Rightarrow> Inr (df\<lparr>columns := concat (map (\<lambda>c. filter (\<lambda>x. fst x = c) (columns df)) cols)\<rparr>)
      | c # cs \<Rightarrow> Inl (KeyError c))"

definition rename_columns :: "(string \<times> string) list \<Rightarrow> frame \<Rightarrow> frame" where
  "rename_columns rename_dict df =
     df\<lparr>columns := map (\<lambda>x. (case map_of rename_dict (fst x) of
                                 None \<Rightarrow> fst x
                               | Some n \<Rightarrow> n, snd x)) (columns df)\<rparr>"

definition rename_dict_of :: "mapping \<Rightarrow> (string \<times> string) list" where
  "rename_dict_of mapping =
     fold (\<lambda>item rename_dict. dict_set (user_column (snd item)) (fst item) rename_dict) mapping []"

definition apply_mapping :: "store \<Rightarrow> nat \<Rightarrow> mapping \<Rightarrow> error + (store \<times> nat)" where
  "apply_mapping st df mapping =
     (let rename_dict = rename_dict_of mapping;
          mapped_cols = map fst rename_dict
      in case select_columns (st ! df) mapped_cols of
           Inl e \<Rightarrow> Inl e
         | Inr selected \<Rightarrow>
             (let st1 = st @ [selected];
                  df_mapped = length st1;
                  st2 = st1 @ [st1 ! length st];
                  st3 = st2[df_mapped := rename_columns rename_dict (st2 ! df_mapped)]
              in Inr (st3, df_mapped)))"

subsection \<open>A library for evaluation\<close>

text \<open>
  Concrete values of the library calls, for evaluating the model on examples.
  \<open>fuzz.ratio\<close> returns 100 on equal strings; on the others \<open>ratio_equal\<close> returns 0,
  the least score. \<open>pd.to_datetime\<close> parses the ISO dates \<open>YYYY-MM-DD\<close>;
  \<open>iso_dates\<close> accepts a text of ten characters with digits around two hyphens and
  nothing else. No example reaches \<open>str\<close> on a number, which is the empty text here.
\<close>

definition ratio_equal :: "string \<Rightarrow> string \<Rightarrow> nat" where
  "ratio_equal a b = (if a = b then 100 else 0)"

definition is_digit :: "char \<Rightarrow> bool" where
  "is_digit c = (c \<in> set ''0123456789'')"

definition iso_date :: "string \<Rightarrow> bool" where
  "iso_date s =
     (length s = 10 \<and> list_all is_digit (take 4 s) \<and> s ! 4 = CHR ''-''
      \<and> list_all is_digit (take 2 (drop 5 s)) \<and> s ! 7 = CHR ''-''
      \<and> list_all is_digit (drop 8 s))"

definition iso_dates :: "string list \<Rightarrow> bool list option" where
  "iso_dates sample = Some (map iso_date sample)"

definition lib0 :: library where
  "lib0 = \<lparr>fuzz_ratio = ratio_equal, to_datetime = iso_dates, str_number = (\<lambda>x. [])\<rparr>"


subsection \<open>Notions used by the properties\<close>

text \<open>Every alias of the catalog with its owner and its similarity to a user column.\<close>

definition alias_scores :: "library \<Rightarrow> ColumnMapper \<Rightarrow> string \<Rightarrow> (string \<times> nat) list" where
  "alias_scores lib self user_col =
     concat (map (\<lambda>item. map (\<lambda>alias. (fst item, calculate_similarity lib user_col alias))
                          (names (snd item)))
               (standard_columns self))"

text \<open>The user columns an entry mentions: the selected one and the alternatives.\<close>

definition mentioned :: "entry \<Rightarrow> string set" where
  "mentioned e = insert (user_column e) (case alternatives e of None \<Rightarrow> {} | Some alts \<Rightarrow> set alts)"

text \<open>The values of the columns of a frame that carry a given label.\<close>

definition values_of :: "frame \<Rightarrow> string \<Rightarrow> series list" where
  "values_of df label = map snd (filter (\<lambda>c. fst c = label) (columns df))"


text \<open>The score vector as the list of its values at the five type tags.\<close>

definition score_list :: "error + (string \<rightharpoonup> int) \<Rightarrow> error + int option list" where
  "score_list r =
     (case r of
        Inl e \<Rightarrow> Inl e
      | Inr scores \<Rightarrow> Inr (map scores [''date'', ''id'', ''numeric'', ''rating'', ''text'']))"

subsection \<open>Example inputs\<close>

definition ecommerce_mapper :: ColumnMapper where
  "ecommerce_mapper = \<lparr>data_type = ''ecommerce'', standard_columns = ECOMMERCE_COLUMNS\<rparr>"

definition sales_mapper :: ColumnMapper where
  "sales_mapper = \<lparr>data_type = ''sales'', standard_columns = SALES_COLUMNS\<rparr>"

text \<open>The column of \<open>test_type_inference_priority\<close>: ten distinct dates.\<close>

definition order_dates :: frame where
  "order_dates = \<lparr>nrows = 10, columns = [(''OrderDate'', ObjectSeries ''object''
     [Some ''2024-01-01'', Some ''2024-01-02'', Some ''2024-01-03'', Some ''2024-01-04'',
      Some ''2024-01-05'', Some ''2024-01-06'', Some ''2024-01-07'', Some ''2024-01-08'',
      Some ''2024-01-09'', Some ''2024-01-10''])]\<rparr>"

definition amount_frame :: frame where
  "amount_frame = \<lparr>nrows = 3, columns = [(''amount'', NumericSeries ''int64'' [Some 1, Some 2, Some 3])]\<rparr>"

definition prices_frame :: frame where
  "prices_frame = \<lparr>nrows = 3, columns =
     [(''price'', NumericSeries ''int64'' [Some 100, Some 200, Some 150]),
      (''Price'', NumericSeries ''int64'' [Some 100, Some 200, Some 150])]\<rparr>"


definition fuzzy_entry :: "string \<Rightarrow> entry" where
  "fuzzy_entry user_col =
     \<lparr>user_column = user_col, confidence = 100, method_name = ''fuzzy'',
      name_score = None, data_score = None, alternatives = None\<rparr>"

definition mapping_without_quantity :: mapping where
  "mapping_without_quantity =
     [(''customerid'', fuzzy_entry ''CustomerID''), (''invoicedate'', fuzzy_entry ''InvoiceDate''),
      (''unitprice'', fuzzy_entry ''UnitPrice'')]"

definition mapping_complete :: mapping where
  "mapping_complete =
     [(''customerid'', fuzzy_entry ''CustomerID''), (''invoicedate'', fuzzy_entry ''InvoiceDate''),
      (''quantity'', fuzzy_entry ''Quantity''), (''unitprice'', fuzzy_entry ''UnitPrice'')]"




definition labels_frame :: frame where
  "labels_frame = \<lparr>nrows = 1, columns =
     [(''Amount'', NumericSeries ''int64'' [Some 1]), (''qty'', NumericSeries ''int64'' [Some 2]),
      (''x'', NumericSeries ''int64'' [Some 3]), (''Price'', NumericSeries ''int64'' [Some 4])]\<rparr>"

text \<open>The frame of \<open>test_apply_mapping\<close>.\<close>

definition orders_frame :: frame where
  "orders_frame = \<lparr>nrows = 3, columns =
     [(''CustomerID'', NumericSeries ''int64'' [Some 1, Some 2, Some 3]),
      (''InvoiceDate'', ObjectSeries ''object'' [Some ''2024-01-01'', Some ''2024-01-02'', Some ''2024-01-03'']),
      (''Quantity'', NumericSeries ''int64'' [Some 5, Some 10, Some 3]),
      (''UnitPrice'', NumericSeries ''int64'' [Some 100, Some 200, Some 150]),
      (''ExtraColumn'', ObjectSeries ''object'' [Some ''A'', Some ''B'', Some ''C''])]\<rparr>"


section \<open>Properties\<close>

subsection \<open>Construction\<close>

text \<open>
  C8. Constructing a mapper with a data type outside 'ecommerce', 'review', 'sales' fails
  with a \<open>ValueError\<close> whose message ends with the list of exactly those three names;
  no default domain is taken. For each of the three names the construction succeeds
  and binds the catalog of that domain.
\<close>

theorem init_fail_fast:
  "(dt \<notin> {''ecommerce'', ''review'', ''sales''} \<longrightarrow>
      init dt = Inl (ValueError (''Unknown data type: '' @ [CHR 0x27] @ dt @ [CHR 0x27]
                       @ ''. Available types: ecommerce, review, sales'')))
   \<and> init ''ecommerce'' = Inr \<lparr>data_type = ''ecommerce'', standard_columns = ECOMMERCE_COLUMNS\<rparr>
   \<and> init ''review'' = Inr \<lparr>data_type = ''review'', standard_columns = REVIEW_COLUMNS\<rparr>
   \<and> init ''sales'' = Inr \<lparr>data_type = ''sales'', standard_columns = SALES_COLUMNS\<rparr>
   \<and> set AVAILABLE_DATA_TYPES = {''ecommerce'', ''review'', ''sales''}"
  by (simp add: init_def AVAILABLE_DATA_TYPES_def)

theorem init_fail_fast_witness:
  "init ''movies'' = Inl (ValueError (''Unknown data type: '' @ [CHR 0x27] @ ''movies'' @ [CHR 0x27]
                       @ ''. Available types: ecommerce, review, sales''))"
  using init_fail_fast [of "''movies''"] by simp

subsection \<open>Validation\<close>

text \<open>
  C5. \<open>validate_mapping\<close> returns a pair and has no failing case. When a required field
  of the catalog is absent from the mapping, the flag is \<open>False\<close> and the messages
  contain the message of that field, which carries the field's name; when every required
  field is present, the result is \<open>(True, [])\<close>.
\<close>

theorem validate_mapping_missing:
  "(\<forall>f config. (f, config) \<in> set (standard_columns self) \<and> required config
        \<and> f \<notin> fst ` set mapping \<longrightarrow>
      fst (validate_mapping self mapping) = False
      \<and> missing_message f \<in> set (snd (validate_mapping self mapping))
      \<and> missing_message f = missing_prefix @ f @ missing_suffix)
   \<and> ((\<forall>f config. (f, config) \<in> set (standard_columns self) \<and> required config
          \<longrightarrow> f \<in> fst ` set mapping) \<longrightarrow>
        validate_mapping self mapping = (True, []))"
proof -
  have miss: "set (get_missing_columns self mapping) =
      {f. \<exists>config. (f, config) \<in> set (standard_columns self) \<and> required config
            \<and> f \<notin> fst ` set mapping}"
    by (auto simp: get_missing_columns_def image_iff)
  show ?thesis
  proof (intro conjI allI impI)
    fix f config
    assume a: "(f, config) \<in> set (standard_columns self) \<and> required config \<and> f \<notin> fst ` set mapping"
    then have m: "f \<in> set (get_missing_columns self mapping)"
      unfolding miss by blast
    then have ne: "get_missing_columns self mapping \<noteq> []" by auto
    show "fst (validate_mapping self mapping) = False"
      using ne by (simp add: validate_mapping_def Let_def)
    show "missing_message f \<in> set (snd (validate_mapping self mapping))"
      using ne m by (simp add: validate_mapping_def Let_def)
    show "missing_message f = missing_prefix @ f @ missing_suffix"
      by (simp add: missing_message_def)
  next
    assume "\<forall>f config. (f, config) \<in> set (standard_columns self) \<and> required config
          \<longrightarrow> f \<in> fst ` set mapping"
    then have "set (get_missing_columns self mapping) = {}"
      unfolding miss by blast
    then show "validate_mapping self mapping = (True, [])"
      by (simp add: validate_mapping_def Let_def)
  qed
qed

theorem validate_mapping_missing_witness:
  "fst (validate_mapping ecommerce_mapper mapping_without_quantity) = False
   \<and> missing_message ''quantity'' \<in> set (snd (validate_mapping ecommerce_mapper mapping_without_quantity))
   \<and> validate_mapping ecommerce_mapper mapping_complete = (True, [])"
proof -
  have h: "(''quantity'', \<lparr>names = [''quantity'', ''qty'', ''amount'', ''count'',
              [CHR 0xEC, CHR 0x88, CHR 0x98, CHR 0xEB, CHR 0x9F, CHR 0x89],
              [CHR 0xEA, CHR 0xB0, CHR 0x9C, CHR 0xEC, CHR 0x88, CHR 0x98]],
            type_tag = ''numeric'', required = True\<rparr>) \<in> set (standard_columns ecommerce_mapper)"
    by (simp add: ecommerce_mapper_def ECOMMERCE_COLUMNS_def)
  have n: "''quantity'' \<notin> fst ` set mapping_without_quantity"
    by (simp add: mapping_without_quantity_def)
  have c: "\<forall>f config. (f, config) \<in> set (standard_columns ecommerce_mapper) \<and> required config
          \<longrightarrow> f \<in> fst ` set mapping_complete"
    by (auto simp: ecommerce_mapper_def ECOMMERCE_COLUMNS_def mapping_complete_def)
  from validate_mapping_missing [of ecommerce_mapper mapping_without_quantity] h n
  have "fst (validate_mapping ecommerce_mapper mapping_without_quantity) = False
     \<and> missing_message ''quantity'' \<in> set (snd (validate_mapping ecommerce_mapper mapping_without_quantity))"
    by (metis column_config.select_convs(3))
  moreover from validate_mapping_missing [of ecommerce_mapper mapping_complete] c
  have "validate_mapping ecommerce_mapper mapping_complete = (True, [])"
    by blast
  ultimately show ?thesis by blast
qed

subsection \<open>Name matcher\<close>

lemma fold_best_step:
  "fold (best_step lib u f) as st =
     fold (\<lambda>p st. if snd p > snd st then (Some (fst p), snd p) else st)
       (map (\<lambda>alias. (f, calculate_similarity lib u alias)) as) st"
  by (induction as arbitrary: st) (simp_all add: best_step_def Let_def)

lemma fold_best_field:
  "fold (best_field lib u) items st =
     fold (\<lambda>p st. if snd p > snd st then (Some (fst p), snd p) else st)
       (concat (map (\<lambda>item. map (\<lambda>alias. (fst item, calculate_similarity lib u alias))
                              (names (snd item))) items)) st"
  by (induction items arbitrary: st) (simp_all add: best_field_def fold_best_step)

lemma fold_best_scan:
  fixes ps :: "(string \<times> nat) list"
  assumes "fold (\<lambda>p st. if snd p > snd st then (Some (fst p), snd p) else st) ps (bm, bs) = (bm', bs')"
  shows "bs \<le> bs' \<and> (\<forall>p \<in> set ps. snd p \<le> bs')
       \<and> (bs < bs' \<longrightarrow> (\<exists>f. bm' = Some f \<and> (f, bs') \<in> set ps))
       \<and> (bs' = bs \<longrightarrow> bm' = bm)"
  using assms
proof (induction ps arbitrary: bm bs)
  case Nil
  then show ?case by simp
next
  case (Cons p ps)
  show ?case
  proof (cases "snd p > bs")
    case True
    with Cons.prems have "fold (\<lambda>p st. if snd p > snd st then (Some (fst p), snd p) else st) ps
        (Some (fst p), snd p) = (bm', bs')" by simp
    from Cons.IH [OF this] True show ?thesis
      by (cases p) (auto simp: le_less)
  next
    case False
    with Cons.prems have "fold (\<lambda>p st. if snd p > snd st then (Some (fst p), snd p) else st) ps
        (bm, bs) = (bm', bs')" by simp
    from Cons.IH [OF this] False show ?thesis
      by auto
  qed
qed

text \<open>
  C6. \<open>find_best_match\<close> returns either a standard field together with a score that
  is at least 50, that one of the field's aliases reaches and that no alias of the
  catalog exceeds; or \<open>(None, 0)\<close>, and then every alias of the catalog scores below 50.
\<close>

theorem find_best_match_best:
  "case find_best_match lib self user_col of
     (Some f, m) \<Rightarrow> 50 \<le> m \<and> (f, m) \<in> set (alias_scores lib self user_col)
                     \<and> (\<forall>p \<in> set (alias_scores lib self user_col). snd p \<le> m)
   | (None, m) \<Rightarrow> m = 0 \<and> (\<forall>p \<in> set (alias_scores lib self user_col). snd p < 50)"
proof -
  obtain bm bs where f: "fold (best_field lib user_col) (standard_columns self) (None, 0) = (bm, bs)"
    by (cases "fold (best_field lib user_col) (standard_columns self) (None, 0)") auto
  then have "fold (\<lambda>p st. if snd p > snd st then (Some (fst p), snd p) else st)
       (alias_scores lib self user_col) (None, 0) = (bm, bs)"
    by (simp add: fold_best_field alias_scores_def)
  from fold_best_scan [OF this]
  have all: "\<forall>p \<in> set (alias_scores lib self user_col). snd p \<le> bs"
    and pos: "0 < bs \<longrightarrow> (\<exists>f. bm = Some f \<and> (f, bs) \<in> set (alias_scores lib self user_col))"
    by auto
  show ?thesis
  proof (cases "50 \<le> bs")
    case True
    with pos obtain f where "bm = Some f" "(f, bs) \<in> set (alias_scores lib self user_col)"
      by auto
    with True all f show ?thesis
      by (simp add: find_best_match_def MIN_SIMILARITY_THRESHOLD_def)
  next
    case False
    with all have "\<forall>p \<in> set (alias_scores lib self user_col). snd p < 50"
      by fastforce
    with False f show ?thesis
      by (simp add: find_best_match_def MIN_SIMILARITY_THRESHOLD_def)
  qed
qed

theorem find_best_match_best_witness:
  "find_best_match lib0 sales_mapper ''Unit Price'' = (Some ''price'', 100)
   \<and> (''price'', 100) \<in> set (alias_scores lib0 sales_mapper ''Unit Price'')
   \<and> find_best_match lib0 sales_mapper ''zip'' = (None, 0)"
proof -
  have a: "find_best_match lib0 sales_mapper ''Unit Price'' = (Some ''price'', 100)"
    by code_simp
  have b: "find_best_match lib0 sales_mapper ''zip'' = (None, 0)"
    by code_simp
  from find_best_match_best [of lib0 sales_mapper "''Unit Price''"] a b show ?thesis
    by simp
qed

subsection \<open>Type scorer\<close>

text \<open>
  C1. The claim expects \<open>date = 90\<close>, \<open>id = 30\<close> or 0 and 0 for the other types
  on a profile with \<open>is_date\<close>. The block of the dates sets these scores and does not
  return; the branch of the columns that are not numeric runs next and overwrites every
  one of them. For a profile with \<open>is_date\<close> that is not numeric and has an average
  length, the scorer returns \<open>date = 0\<close>, \<open>id = 80\<close> if \<open>is_id\<close> and
  \<open>unique_ratio * 30\<close> truncated otherwise, and the score of the length tier for
  \<open>text\<close>.
\<close>

theorem date_scores_overwritten:
  assumes "is_date a" and "\<not> is_numeric a" and "avg_length a = Some l"
  shows "infer_column_type lib df col_name (Some a) =
           Inr [''numeric'' \<mapsto> 0, ''rating'' \<mapsto> 0,
                ''id'' \<mapsto> (if is_id a then 80 else py_int (unique_ratio a * 30)),
                ''text'' \<mapsto> (if l \<ge> 50 then 80 else if l \<ge> 20 then 60 else 30),
                ''date'' \<mapsto> 0]"
proof -
  have "infer_column_type lib df col_name (Some a) =
      Inr ((date_block a Map.empty)(''numeric'' \<mapsto> 0, ''rating'' \<mapsto> 0,
             ''id'' \<mapsto> (if is_id a then 80 else py_int (unique_ratio a * 30)),
             ''text'' \<mapsto> text_score l, ''date'' \<mapsto> 0))"
    using assms by (simp add: infer_column_type_def other_block_def SCORE_MEDIUM_HIGH_def)
  moreover have "(date_block a Map.empty)(''numeric'' \<mapsto> 0, ''rating'' \<mapsto> 0,
             ''id'' \<mapsto> (if is_id a then 80 else py_int (unique_ratio a * 30)),
             ''text'' \<mapsto> text_score l, ''date'' \<mapsto> 0) =
        [''numeric'' \<mapsto> 0, ''rating'' \<mapsto> 0,
         ''id'' \<mapsto> (if is_id a then 80 else py_int (unique_ratio a * 30)),
         ''text'' \<mapsto> (if l \<ge> 50 then 80 else if l \<ge> 20 then 60 else 30),
         ''date'' \<mapsto> 0]"
    by (rule ext) (simp add: date_block_def text_score_def SCORE_MEDIUM_HIGH_def
        SCORE_MEDIUM_LOW_def SCORE_LOW_def TEXT_LENGTH_LONG_def TEXT_LENGTH_MEDIUM_def)
  ultimately show ?thesis by simp
qed

text \<open>
  The column of the repository's test \<open>test_type_inference_priority\<close>: the profile has
  \<open>is_date\<close> and \<open>is_id\<close>, and the scores of date, id, numeric, rating and text are
  0, 80, 0, 0 and 30.
\<close>

theorem date_scores_overwritten_witness:
  "analyze_column_data lib0 order_dates ''OrderDate'' =
     Inr \<lparr>dtype = ''object'', unique_ratio = 1, missing_ratio = 0, is_date = True,
          is_numeric = False, is_id = True, numeric_range = None, avg_length = Some 10\<rparr>
   \<and> score_list (infer_column_type lib0 order_dates ''OrderDate''
        (Some \<lparr>dtype = ''object'', unique_ratio = 1, missing_ratio = 0, is_date = True,
          is_numeric = False, is_id = True, numeric_range = None, avg_length = Some 10\<rparr>)) =
     Inr [Some 0, Some 80, Some 0, Some 0, Some 30]"
proof -
  let ?a = "\<lparr>dtype = ''object'', unique_ratio = 1, missing_ratio = 0, is_date = True,
          is_numeric = False, is_id = True, numeric_range = None, avg_length = Some (10 :: rat)\<rparr>"
  have p: "analyze_column_data lib0 order_dates ''OrderDate'' = Inr ?a"
    by code_simp
  have "infer_column_type lib0 order_dates ''OrderDate'' (Some ?a) =
      Inr [''numeric'' \<mapsto> 0, ''rating'' \<mapsto> 0, ''id'' \<mapsto> 80, ''text'' \<mapsto> 30, ''date'' \<mapsto> 0]"
    using date_scores_overwritten [where a = ?a and l = 10 and lib = lib0 and df = order_dates
        and col_name = "''OrderDate''"]
    by simp
  then have "score_list (infer_column_type lib0 order_dates ''OrderDate'' (Some ?a)) =
      Inr [Some 0, Some 80, Some 0, Some 0, Some 30]"
    by (simp add: score_list_def)
  with p show ?thesis by simp
qed




subsection \<open>Degenerate columns\<close>





subsection \<open>Name-only mapping\<close>

lemma set_dict_set:
  "set (dict_set k v d) \<subseteq> insert (k, v) (set d)"
  by (induction d) (auto split: if_splits)

lemma add_candidate_invariant:
  assumes "\<forall>item \<in> set cs. snd item \<noteq> [] \<and> (\<forall>c \<in> set (snd item). P (fst item) c)"
    and "P k c"
  shows "\<forall>item \<in> set (add_candidate k c cs). snd item \<noteq> [] \<and> (\<forall>c \<in> set (snd item). P (fst item) c)"
proof (cases "map_of cs k")
  case None
  then have "set (add_candidate k c cs) \<subseteq> insert (k, [c]) (set cs)"
    by (simp add: add_candidate_def set_dict_set)
  with assms show ?thesis by fastforce
next
  case (Some old)
  then have "(k, old) \<in> set cs" by (rule map_of_SomeD)
  with assms(1) have o: "\<forall>c \<in> set old. P k c" by fastforce
  from Some have "set (add_candidate k c cs) \<subseteq> insert (k, old @ [c]) (set cs)"
    by (simp add: add_candidate_def set_dict_set)
  with assms o show ?thesis by fastforce
qed

lemma collect_fuzzy_invariant:
  assumes "\<forall>item \<in> set cs. snd item \<noteq> []
             \<and> (\<forall>c \<in> set (snd item). fst (find_best_match lib self (fst c)) = Some (fst item))"
  shows "\<forall>item \<in> set (fold (collect_fuzzy lib self) us cs). snd item \<noteq> []
             \<and> (\<forall>c \<in> set (snd item). fst (find_best_match lib self (fst c)) = Some (fst item))"
  using assms
proof (induction us arbitrary: cs)
  case Nil
  then show ?case by simp
next
  case (Cons u us)
  have "\<forall>item \<in> set (collect_fuzzy lib self u cs). snd item \<noteq> []
             \<and> (\<forall>c \<in> set (snd item). fst (find_best_match lib self (fst c)) = Some (fst item))"
  proof (cases "find_best_match lib self u")
    case (Pair std_col score)
    show ?thesis
    proof (cases std_col)
      case None
      with Pair Cons.prems show ?thesis by (simp add: collect_fuzzy_def)
    next
      case (Some s)
      show ?thesis
      proof (cases "s = []")
        case True
        with Pair Some Cons.prems show ?thesis by (simp add: collect_fuzzy_def)
      next
        case False
        have "fst (find_best_match lib self (fst (u, score))) = Some s"
          using Pair Some by simp
        from add_candidate_invariant [where P = "\<lambda>k c. fst (find_best_match lib self (fst c)) = Some k",
            OF Cons.prems this]
        show ?thesis using Pair Some False by (simp add: collect_fuzzy_def)
      qed
    qed
  qed
  from Cons.IH [OF this] show ?case by simp
qed

lemma resolve_fuzzy_mentions:
  assumes "us \<noteq> []"
  shows "\<exists>e. resolve_fuzzy us = Inr e \<and> mentioned e \<subseteq> fst ` set us"
proof (cases "\<exists>c. us = [c]")
  case True
  then obtain u sc where "us = [(u, sc)]" by (cases us) auto
  then show ?thesis by (simp add: mentioned_def)
next
  case False
  with assms obtain a b rest where us: "us = a # b # rest"
    by (cases us; cases "tl us") auto
  let ?s = "sorted_reverse (\<lambda>x. of_nat (snd x)) us"
  have set_s: "set ?s = set us" by (simp add: sorted_reverse_def)
  then have "?s \<noteq> []" using assms by auto
  then obtain best srest where s: "?s = best # srest" by (cases ?s) auto
  obtain bc bs where best: "best = (bc, bs)" by (cases best)
  have "resolve_fuzzy us =
      Inr \<lparr>user_column = bc, confidence = of_nat bs, method_name = ''fuzzy'',
           name_score = None, data_score = None, alternatives = Some (map fst srest)\<rparr>"
    using s best us by simp
  moreover have "insert bc (set (map fst srest)) \<subseteq> fst ` set us"
    using set_s s best by force
  ultimately show ?thesis by (simp add: mentioned_def)
qed

lemma resolve_fuzzy_fold:
  assumes "\<forall>item \<in> set cs. snd item \<noteq> [] \<and> (\<forall>c \<in> set (snd item). Q (fst c) (fst item))"
    and "\<forall>item \<in> set m. \<forall>u \<in> mentioned (snd item). Q u (fst item)"
  shows "\<exists>m'. fold resolve_fuzzy_step cs (Inr m) = Inr m'
           \<and> (\<forall>item \<in> set m'. \<forall>u \<in> mentioned (snd item). Q u (fst item))"
  using assms
proof (induction cs arbitrary: m)
  case Nil
  then show ?case by simp
next
  case (Cons item cs)
  from Cons.prems(1) have ne: "snd item \<noteq> []"
    and q: "\<forall>c \<in> set (snd item). Q (fst c) (fst item)" by auto
  from resolve_fuzzy_mentions [OF ne] obtain e where
    e: "resolve_fuzzy (snd item) = Inr e" "mentioned e \<subseteq> fst ` set (snd item)" by blast
  have step: "resolve_fuzzy_step item (Inr m) = Inr (dict_set (fst item) e m)"
    using e(1) by (simp add: resolve_fuzzy_step_def)
  have "\<forall>u \<in> mentioned e. Q u (fst item)"
    using e(2) q by auto
  then have "\<forall>it \<in> set (dict_set (fst item) e m). \<forall>u \<in> mentioned (snd it). Q u (fst it)"
    using Cons.prems(2) set_dict_set [of "fst item" e m] by fastforce
  moreover from Cons.prems(1)
  have "\<forall>it \<in> set cs. snd it \<noteq> [] \<and> (\<forall>c \<in> set (snd it). Q (fst c) (fst it))" by simp
  ultimately show ?case
    using Cons.IH [of "dict_set (fst item) e m"] step by simp
qed

text \<open>
  C10. \<open>auto_map_columns\<close> returns a mapping, and a user column that an entry of it
  mentions, as the selected column or as an alternative, is mentioned for no other
  standard field: it stands only under the field that \<open>find_best_match\<close> gives it.
\<close>

theorem auto_map_columns_one_field:
  "\<exists>m. auto_map_columns lib self df = Inr m
     \<and> (\<forall>f e u. (f, e) \<in> set m \<and> u \<in> mentioned e \<longrightarrow> fst (find_best_match lib self u) = Some f)
     \<and> (\<forall>f g e e' u. (f, e) \<in> set m \<and> (g, e') \<in> set m \<and> u \<in> mentioned e \<and> u \<in> mentioned e'
           \<longrightarrow> f = g)"
proof -
  let ?cs = "fold (collect_fuzzy lib self) (column_names df) []"
  have "\<forall>item \<in> set ?cs. snd item \<noteq> []
           \<and> (\<forall>c \<in> set (snd item). fst (find_best_match lib self (fst c)) = Some (fst item))"
    by (rule collect_fuzzy_invariant) simp
  from resolve_fuzzy_fold [where Q = "\<lambda>u f. fst (find_best_match lib self u) = Some f"
      and m = "[]", OF this]
  obtain m where m: "fold resolve_fuzzy_step ?cs (Inr []) = Inr m"
    "\<forall>item \<in> set m. \<forall>u \<in> mentioned (snd item). fst (find_best_match lib self u) = Some (fst item)"
    by auto
  have a: "auto_map_columns lib self df = Inr m"
    using m(1) by (simp add: auto_map_columns_def)
  have b: "\<forall>f e u. (f, e) \<in> set m \<and> u \<in> mentioned e \<longrightarrow> fst (find_best_match lib self u) = Some f"
    using m(2) by fastforce
  then have "\<forall>f g e e' u. (f, e) \<in> set m \<and> (g, e') \<in> set m \<and> u \<in> mentioned e \<and> u \<in> mentioned e'
           \<longrightarrow> f = g"
    by (metis option.inject)
  with a b show ?thesis by blast
qed

theorem auto_map_columns_one_field_witness:
  "auto_map_columns lib0 sales_mapper labels_frame =
     Inr [(''quantity'', \<lparr>user_column = ''Amount'', confidence = 100, method_name = ''fuzzy'',
             name_score = None, data_score = None, alternatives = Some [''qty'']\<rparr>),
          (''price'', \<lparr>user_column = ''Price'', confidence = 100, method_name = ''fuzzy'',
             name_score = None, data_score = None, alternatives = None\<rparr>)]
   \<and> fst (find_best_match lib0 sales_mapper ''qty'') = Some ''quantity''"
proof -
  have a: "auto_map_columns lib0 sales_mapper labels_frame =
     Inr [(''quantity'', \<lparr>user_column = ''Amount'', confidence = 100, method_name = ''fuzzy'',
             name_score = None, data_score = None, alternatives = Some [''qty'']\<rparr>),
          (''price'', \<lparr>user_column = ''Price'', confidence = 100, method_name = ''fuzzy'',
             name_score = None, data_score = None, alternatives = None\<rparr>)]"
    by code_simp
  from auto_map_columns_one_field [of lib0 sales_mapper labels_frame]
  obtain m where m: "auto_map_columns lib0 sales_mapper labels_frame = Inr m"
    "\<forall>f e u. (f, e) \<in> set m \<and> u \<in> mentioned e \<longrightarrow> fst (find_best_match lib0 sales_mapper u) = Some f"
    by blast
  from m(1) a have "(''quantity'', \<lparr>user_column = ''Amount'', confidence = 100, method_name = ''fuzzy'',
             name_score = None, data_score = None, alternatives = Some [''qty'']\<rparr>) \<in> set m"
    by auto
  moreover have "''qty'' \<in> mentioned \<lparr>user_column = ''Amount'', confidence = 100, method_name = ''fuzzy'',
             name_score = None, data_score = None, alternatives = Some [''qty'']\<rparr>"
    by (simp add: mentioned_def)
  ultimately have "fst (find_best_match lib0 sales_mapper ''qty'') = Some ''quantity''"
    using m(2) by blast
  with a show ?thesis by simp
qed

subsection \<open>Hybrid resolver\<close>

lemma dict_set_fresh:
  "k \<notin> fst ` set d \<Longrightarrow> dict_set k v d = d @ [(k, v)]"
  by (induction d) auto

lemma fold_dict_set_distinct:
  assumes "distinct (map kf xs)" and "kf ` set xs \<inter> fst ` set acc = {}"
  shows "fold (\<lambda>item d. dict_set (kf item) (vf item) d) xs acc =
           acc @ map (\<lambda>item. (kf item, vf item)) xs"
  using assms
proof (induction xs arbitrary: acc)
  case Nil
  then show ?case by simp
next
  case (Cons x xs)
  from Cons.prems have fresh: "kf x \<notin> fst ` set acc" by auto
  have "kf ` set xs \<inter> fst ` set (acc @ [(kf x, vf x)]) = {}"
    using Cons.prems by auto
  moreover from Cons.prems have "distinct (map kf xs)" by simp
  ultimately show ?case
    using Cons.IH [of "acc @ [(kf x, vf x)]"] fresh by (simp add: dict_set_fresh)
qed

lemma hybrid_candidates_distinct:
  assumes "distinct (map fst (standard_columns self))"
  shows "hybrid_candidates lib self df nw dw =
           map (\<lambda>item. (fst item, field_candidates lib df nw dw (snd item))) (standard_columns self)"
  unfolding hybrid_candidates_def
  using fold_dict_set_distinct [where kf = fst and acc = "[]"
      and vf = "\<lambda>item. field_candidates lib df nw dw (snd item)", OF assms]
  by simp

lemma fold_resolve_hybrid_step:
  assumes "distinct (map fst xs)" and "fst ` set xs \<inter> fst ` set acc = {}"
  shows "fold resolve_hybrid_step xs acc =
           acc @ map (\<lambda>item. (fst item, resolve_hybrid (snd item))) (filter (\<lambda>item. snd item \<noteq> []) xs)"
  using assms
proof (induction xs arbitrary: acc)
  case Nil
  then show ?case by simp
next
  case (Cons x xs)
  show ?case
  proof (cases "snd x = []")
    case True
    with Cons show ?thesis by (simp add: resolve_hybrid_step_def)
  next
    case False
    from Cons.prems have fresh: "fst x \<notin> fst ` set acc" by auto
    have "fst ` set xs \<inter> fst ` set (acc @ [(fst x, resolve_hybrid (snd x))]) = {}"
      using Cons.prems by auto
    moreover from Cons.prems have "distinct (map fst xs)" by simp
    ultimately show ?thesis
      using Cons.IH [of "acc @ [(fst x, resolve_hybrid (snd x))]"] fresh False
      by (simp add: resolve_hybrid_step_def dict_set_fresh)
  qed
qed

lemma hybrid_map_columns_distinct:
  assumes "distinct (map fst (standard_columns self))"
  shows "hybrid_map_columns lib self df nw dw =
           map (\<lambda>item. (fst item, resolve_hybrid (field_candidates lib df nw dw (snd item))))
             (filter (\<lambda>item. field_candidates lib df nw dw (snd item) \<noteq> []) (standard_columns self))"
proof -
  let ?cs = "map (\<lambda>item. (fst item, field_candidates lib df nw dw (snd item))) (standard_columns self)"
  have d: "distinct (map fst ?cs)"
    using assms by (simp add: comp_def)
  have "hybrid_map_columns lib self df nw dw = fold resolve_hybrid_step ?cs []"
    by (simp add: hybrid_map_columns_def hybrid_candidates_distinct [OF assms])
  also have "\<dots> = map (\<lambda>item. (fst item, resolve_hybrid (snd item))) (filter (\<lambda>item. snd item \<noteq> []) ?cs)"
    using fold_resolve_hybrid_step [OF d, of "[]"] by simp
  also have "\<dots> = map (\<lambda>item. (fst item, resolve_hybrid (field_candidates lib df nw dw (snd item))))
             (filter (\<lambda>item. field_candidates lib df nw dw (snd item) \<noteq> []) (standard_columns self))"
    by (simp add: filter_map comp_def)
  finally show ?thesis .
qed

lemma hybrid_map_columns_keys:
  assumes "distinct (map fst (standard_columns self))"
  shows "distinct (map fst (hybrid_map_columns lib self df nw dw))"
proof -
  have "map fst (hybrid_map_columns lib self df nw dw) =
      map fst (filter (\<lambda>item. field_candidates lib df nw dw (snd item) \<noteq> []) (standard_columns self))"
    by (simp add: hybrid_map_columns_distinct [OF assms] comp_def)
  then show ?thesis
    using assms by (simp add: distinct_map_filter)
qed

lemma hybrid_map_columns_entry:
  assumes "distinct (map fst (standard_columns self))"
  shows "(f, e) \<in> set (hybrid_map_columns lib self df nw dw) \<longleftrightarrow>
           (\<exists>config. (f, config) \<in> set (standard_columns self)
              \<and> field_candidates lib df nw dw config \<noteq> []
              \<and> e = resolve_hybrid (field_candidates lib df nw dw config))"
  by (auto simp: hybrid_map_columns_distinct [OF assms] image_iff)

lemma sorted_reverse_mset:
  "mset (sorted_reverse key xs) = mset xs"
  by (simp add: sorted_reverse_def)

lemma sorted_reverse_descending:
  "sorted_wrt (\<lambda>a b. key b \<le> key a) (sorted_reverse key xs)"
proof -
  have "sorted (map (\<lambda>x. - key x) (sorted_reverse key xs))"
    by (simp add: sorted_reverse_def)
  then show ?thesis
    by (simp add: sorted_wrt_map)
qed

text \<open>What step 3 selects for one standard field that has candidates.\<close>

lemma resolve_hybrid_selects:
  assumes "cs \<noteq> []"
  shows "\<exists>best rest. mset (best # rest) = mset cs
           \<and> sorted_wrt (\<lambda>a b. combined b \<le> combined a) (best # rest)
           \<and> resolve_hybrid cs =
               hybrid_entry best (if length cs = 1 then None else Some (map fst rest))"
proof (cases "length cs = 1")
  case True
  then obtain c where "cs = [c]" by (cases cs) auto
  then show ?thesis
    by (intro exI [of _ c] exI [of _ "[]"]) (simp add: resolve_hybrid_def)
next
  case False
  let ?s = "sorted_reverse combined cs"
  have "mset ?s = mset cs" by (rule sorted_reverse_mset)
  with assms have "?s \<noteq> []" by auto
  then obtain best rest where s: "?s = best # rest" by (cases ?s) auto
  have "mset (best # rest) = mset cs"
    using sorted_reverse_mset [of combined cs] s by simp
  moreover have "sorted_wrt (\<lambda>a b. combined b \<le> combined a) (best # rest)"
    using sorted_reverse_descending [of combined cs] s by simp
  moreover have "resolve_hybrid cs = hybrid_entry best (Some (map fst rest))"
    using False s by (simp add: resolve_hybrid_def Let_def)
  ultimately show ?thesis using False
    by (intro exI [of _ best] exI [of _ rest]) simp
qed

lemma field_candidates_member:
  assumes "c \<in> set (field_candidates lib df nw dw config)"
  shows "fst c \<in> set (column_names df) \<and> 50 \<le> combined c
       \<and> combined c = of_nat (fst (snd (snd c))) * nw + of_int (snd (snd (snd c))) * dw"
proof -
  from assms obtain u where u: "u \<in> set (column_names df)"
    and c: "c \<in> set (field_candidate lib df nw dw config u)"
    by (auto simp: field_candidates_def)
  from c show ?thesis
    using u
    by (auto simp: field_candidate_def Let_def combined_def MIN_SIMILARITY_THRESHOLD_def
        split: if_splits)
qed

lemma resolve_hybrid_winner:
  assumes "cs \<noteq> []"
  shows "\<exists>c \<in> set cs. user_column (resolve_hybrid cs) = fst c
           \<and> confidence (resolve_hybrid cs) = py_round1 (combined c)
           \<and> (\<forall>c' \<in> set cs. combined c' \<le> combined c)"
proof -
  from resolve_hybrid_selects [OF assms] obtain best rest where
    m: "mset (best # rest) = mset cs"
    and s: "sorted_wrt (\<lambda>a b. combined b \<le> combined a) (best # rest)"
    and r: "resolve_hybrid cs = hybrid_entry best (if length cs = 1 then None else Some (map fst rest))"
    by blast
  from m have set: "set cs = insert best (set rest)"
    by (metis list.simps(15) set_mset_mset)
  with s have "\<forall>c' \<in> set cs. combined c' \<le> combined best" by auto
  with set r show ?thesis
    by (intro bexI [of _ best]) (simp_all add: hybrid_entry_def)
qed

text \<open>
  C2, as stated: no user column is the selected column of two standard fields. In the
  sales catalog \<open>amount\<close> is an alias of \<open>quantity\<close> and of \<open>price\<close>, and a frame
  whose only column is the numeric column \<open>amount\<close> gets that column for both fields.
\<close>

theorem double_assignment_counterexample:
  "hybrid_map_columns lib0 sales_mapper amount_frame (6 / 10) (4 / 10) =
     [(''quantity'', \<lparr>user_column = ''amount'', confidence = 92, method_name = ''hybrid'',
          name_score = Some 100, data_score = Some 80, alternatives = None\<rparr>),
      (''price'', \<lparr>user_column = ''amount'', confidence = 92, method_name = ''hybrid'',
          name_score = Some 100, data_score = Some 80, alternatives = None\<rparr>)]"
  by code_simp

text \<open>
  C2, amended. The mapping of \<open>hybrid_map_columns\<close> has at most one entry for each
  standard field, and the selected column of the entry of a field is one of the
  candidates of that field, with a combined score of at least 50 that no candidate of the
  field exceeds. The fields are resolved one by one: a user column that is a candidate of
  one standard field only is selected for at most one field.
\<close>

theorem hybrid_fields_resolved_independently:
  assumes "distinct (map fst (standard_columns self))"
  shows "distinct (map fst (hybrid_map_columns lib self df nw dw))
       \<and> (\<forall>f e. (f, e) \<in> set (hybrid_map_columns lib self df nw dw) \<longrightarrow>
             (\<exists>config c. (f, config) \<in> set (standard_columns self)
                \<and> c \<in> set (field_candidates lib df nw dw config)
                \<and> user_column e = fst c \<and> 50 \<le> combined c
                \<and> (\<forall>c' \<in> set (field_candidates lib df nw dw config). combined c' \<le> combined c)))
       \<and> (\<forall>u. (\<forall>f g cf cg. (f, cf) \<in> set (standard_columns self)
                    \<and> (g, cg) \<in> set (standard_columns self)
                    \<and> u \<in> fst ` set (field_candidates lib df nw dw cf)
                    \<and> u \<in> fst ` set (field_candidates lib df nw dw cg) \<longrightarrow> f = g) \<longrightarrow>
                (\<forall>f g e e'. (f, e) \<in> set (hybrid_map_columns lib self df nw dw)
                    \<and> (g, e') \<in> set (hybrid_map_columns lib self df nw dw)
                    \<and> user_column e = u \<and> user_column e' = u \<longrightarrow> f = g))"
proof -
  let ?R = "hybrid_map_columns lib self df nw dw"
  have sel: "\<exists>config c. (f, config) \<in> set (standard_columns self)
                \<and> c \<in> set (field_candidates lib df nw dw config)
                \<and> user_column e = fst c \<and> 50 \<le> combined c
                \<and> (\<forall>c' \<in> set (field_candidates lib df nw dw config). combined c' \<le> combined c)"
    if "(f, e) \<in> set ?R" for f e
  proof -
    from that obtain config where cfg: "(f, config) \<in> set (standard_columns self)"
      "field_candidates lib df nw dw config \<noteq> []"
      "e = resolve_hybrid (field_candidates lib df nw dw config)"
      using hybrid_map_columns_entry [OF assms] by blast
    from resolve_hybrid_winner [OF cfg(2)] obtain c where
      c: "c \<in> set (field_candidates lib df nw dw config)" "user_column e = fst c"
      "\<forall>c' \<in> set (field_candidates lib df nw dw config). combined c' \<le> combined c"
      using cfg(3) by blast
    from field_candidates_member [OF c(1)] have "50 \<le> combined c" by simp
    with cfg(1) c show ?thesis by blast
  qed
  have one: "f = g"
    if h: "\<forall>f g cf cg. (f, cf) \<in> set (standard_columns self) \<and> (g, cg) \<in> set (standard_columns self)
                    \<and> u \<in> fst ` set (field_candidates lib df nw dw cf)
                    \<and> u \<in> fst ` set (field_candidates lib df nw dw cg) \<longrightarrow> f = g"
      and m: "(f, e) \<in> set ?R" "(g, e') \<in> set ?R" "user_column e = u" "user_column e' = u"
    for u f g e e'
  proof -
    from sel [OF m(1)] m(3) obtain cf where
      "(f, cf) \<in> set (standard_columns self)" "u \<in> fst ` set (field_candidates lib df nw dw cf)"
      by force
    moreover from sel [OF m(2)] m(4) obtain cg where
      "(g, cg) \<in> set (standard_columns self)" "u \<in> fst ` set (field_candidates lib df nw dw cg)"
      by force
    ultimately show ?thesis using h by blast
  qed
  from hybrid_map_columns_keys [OF assms] sel one show ?thesis
    by blast
qed

theorem hybrid_fields_resolved_independently_witness:
  "distinct (map fst (standard_columns ecommerce_mapper))
   \<and> distinct (map fst (hybrid_map_columns lib0 ecommerce_mapper prices_frame (6 / 10) (4 / 10)))
   \<and> map (\<lambda>item. (fst item, user_column (snd item)))
        (hybrid_map_columns lib0 ecommerce_mapper prices_frame (6 / 10) (4 / 10)) =
       [(''unitprice'', ''price'')]"
proof -
  have d: "distinct (map fst (standard_columns ecommerce_mapper))"
    by (simp add: ecommerce_mapper_def ECOMMERCE_COLUMNS_def)
  have r: "map (\<lambda>item. (fst item, user_column (snd item)))
        (hybrid_map_columns lib0 ecommerce_mapper prices_frame (6 / 10) (4 / 10)) =
       [(''unitprice'', ''price'')]"
    by code_simp
  from hybrid_fields_resolved_independently [OF d, of lib0 prices_frame "6 / 10" "4 / 10"]
  have "distinct (map fst (hybrid_map_columns lib0 ecommerce_mapper prices_frame (6 / 10) (4 / 10)))"
    by blast
  with d r show ?thesis by blast
qed

lemma round_half_even_near:
  "\<bar>of_int (round_half_even y) - y\<bar> \<le> 1 / 2"
proof -
  have "of_int \<lfloor>y\<rfloor> \<le> y" "y < of_int \<lfloor>y\<rfloor> + 1"
    by linarith+
  then show ?thesis
    by (auto simp: round_half_even_def Let_def abs_le_iff)
qed

lemma py_round1_near:
  "\<bar>py_round1 x - x\<bar> \<le> 1 / 20"
proof -
  have "\<bar>of_int (round_half_even (x * 10)) - x * 10\<bar> \<le> 1 / 2"
    by (rule round_half_even_near)
  then show ?thesis
    by (simp add: py_round1_def abs_le_iff field_simps)
qed

lemma py_round1_tenths:
  "py_round1 (of_int k / 10) = of_int k / 10"
  by (simp add: py_round1_def round_half_even_def)

lemma default_weights_tenths:
  "of_nat n * (6 / 10) + of_int d * (4 / 10) = (of_int (6 * int n + 4 * d) / 10 :: rat)"
  by simp

text \<open>
  C4, as stated: every alternative's combined score is at most the \<open>confidence\<close> of the
  entry. The confidence is the best combined score rounded to one decimal. With the
  weights 2/3 and 1/3, the columns \<open>price\<close> and \<open>Price\<close> both reach 280/3 for
  \<open>unitprice\<close>; the entry selects \<open>price\<close> with the confidence 93.3, below the
  score of the alternative \<open>Price\<close>.
\<close>

theorem rounded_confidence_counterexample:
  "hybrid_candidates lib0 ecommerce_mapper prices_frame (2 / 3) (1 / 3) =
     [(''customerid'', []), (''invoicedate'', []), (''quantity'', []),
      (''unitprice'', [(''price'', 280 / 3, 100, 80), (''Price'', 280 / 3, 100, 80)])]
   \<and> hybrid_map_columns lib0 ecommerce_mapper prices_frame (2 / 3) (1 / 3) =
     [(''unitprice'', \<lparr>user_column = ''price'', confidence = 933 / 10, method_name = ''hybrid'',
          name_score = Some 100, data_score = Some 80, alternatives = Some [''Price'']\<rparr>)]
   \<and> (933 / 10 :: rat) < 280 / 3"
  by code_simp

text \<open>
  C4, amended. For a standard field with two or more candidates, the entry of the field
  selects a candidate with the highest combined score and lists the names of all the
  others as alternatives, in descending order of the combined score; every candidate's
  combined score is at least 50 and at most the combined score of the selected one. The
  confidence of the entry is that score rounded to one decimal, so it differs from it by
  at most 0.05, and it is equal to it for the weights 0.6 and 0.4.
\<close>

theorem hybrid_conflict_resolution:
  assumes "distinct (map fst (standard_columns self))"
    and "(f, config) \<in> set (standard_columns self)"
    and "length (field_candidates lib df nw dw config) \<ge> 2"
  shows "\<exists>e best rest. map_of (hybrid_map_columns lib self df nw dw) f = Some e
           \<and> mset (best # rest) = mset (field_candidates lib df nw dw config)
           \<and> user_column e = fst best \<and> alternatives e = Some (map fst rest)
           \<and> sorted_wrt (\<lambda>a b. combined b \<le> combined a) (best # rest)
           \<and> (\<forall>c \<in> set (field_candidates lib df nw dw config).
                 50 \<le> combined c \<and> combined c \<le> combined best)
           \<and> confidence e = py_round1 (combined best)
           \<and> \<bar>confidence e - combined best\<bar> \<le> 1 / 20
           \<and> (nw = 6 / 10 \<and> dw = 4 / 10 \<longrightarrow> confidence e = combined best)"
proof -
  let ?cs = "field_candidates lib df nw dw config"
  let ?R = "hybrid_map_columns lib self df nw dw"
  from assms(3) have ne: "?cs \<noteq> []" and two: "length ?cs \<noteq> 1" by auto
  from resolve_hybrid_selects [OF ne] two obtain best rest where
    m: "mset (best # rest) = mset ?cs"
    and s: "sorted_wrt (\<lambda>a b. combined b \<le> combined a) (best # rest)"
    and r: "resolve_hybrid ?cs = hybrid_entry best (Some (map fst rest))"
    by auto
  from m have set: "set ?cs = insert best (set rest)"
    by (metis list.simps(15) set_mset_mset)
  have "(f, resolve_hybrid ?cs) \<in> set ?R"
    using hybrid_map_columns_entry [OF assms(1)] assms(2) ne by blast
  with hybrid_map_columns_keys [OF assms(1)]
  have e: "map_of ?R f = Some (resolve_hybrid ?cs)"
    by (simp add: map_of_is_SomeI)
  have "\<forall>c \<in> set ?cs. 50 \<le> combined c"
    using field_candidates_member by blast
  moreover have "\<forall>c \<in> set ?cs. combined c \<le> combined best"
    using set s by auto
  ultimately have top: "\<forall>c \<in> set ?cs. 50 \<le> combined c \<and> combined c \<le> combined best"
    by blast
  have conf: "confidence (resolve_hybrid ?cs) = py_round1 (combined best)"
    by (simp add: r hybrid_entry_def)
  have near: "\<bar>confidence (resolve_hybrid ?cs) - combined best\<bar> \<le> 1 / 20"
    unfolding conf by (rule py_round1_near)
  have dflt: "nw = 6 / 10 \<and> dw = 4 / 10 \<longrightarrow> confidence (resolve_hybrid ?cs) = combined best"
  proof
    assume w: "nw = 6 / 10 \<and> dw = 4 / 10"
    from set have "best \<in> set ?cs" by simp
    from field_candidates_member [OF this] w
    have "combined best = of_int (6 * int (fst (snd (snd best))) + 4 * snd (snd (snd best))) / 10"
      using default_weights_tenths by simp
    then show "confidence (resolve_hybrid ?cs) = combined best"
      unfolding conf using py_round1_tenths by metis
  qed
  show ?thesis
    using e m s top conf near dflt r
    by (intro exI [of _ "resolve_hybrid ?cs"] exI [of _ best] exI [of _ rest])
      (simp add: hybrid_entry_def)
qed

theorem hybrid_conflict_resolution_witness:
  "2 \<le> length (field_candidates lib0 prices_frame (6 / 10) (4 / 10) (snd (ECOMMERCE_COLUMNS ! 3)))
   \<and> (\<exists>e. map_of (hybrid_map_columns lib0 ecommerce_mapper prices_frame (6 / 10) (4 / 10)) ''unitprice'' = Some e
         \<and> confidence e = 92 \<and> user_column e = ''price'' \<and> alternatives e = Some [''Price''])"
proof -
  have d: "distinct (map fst (standard_columns ecommerce_mapper))"
    by (simp add: ecommerce_mapper_def ECOMMERCE_COLUMNS_def)
  have i: "(''unitprice'', snd (ECOMMERCE_COLUMNS ! 3)) \<in> set (standard_columns ecommerce_mapper)"
    by (simp add: ecommerce_mapper_def ECOMMERCE_COLUMNS_def)
  have c: "field_candidates lib0 prices_frame (6 / 10) (4 / 10) (snd (ECOMMERCE_COLUMNS ! 3)) =
      [(''price'', 92, 100, 80), (''Price'', 92, 100, 80)]"
    by code_simp
  then have l: "2 \<le> length (field_candidates lib0 prices_frame (6 / 10) (4 / 10) (snd (ECOMMERCE_COLUMNS ! 3)))"
    by simp
  have r: "map_of (hybrid_map_columns lib0 ecommerce_mapper prices_frame (6 / 10) (4 / 10)) ''unitprice'' =
      Some \<lparr>user_column = ''price'', confidence = 92, method_name = ''hybrid'',
          name_score = Some 100, data_score = Some 80, alternatives = Some [''Price'']\<rparr>"
    by code_simp
  from hybrid_conflict_resolution [OF d i l] r l show ?thesis
    by simp
qed

subsection \<open>Applying a mapping\<close>

lemma rename_dict_of_distinct:
  assumes "distinct (map (\<lambda>item. user_column (snd item)) mapping)"
  shows "rename_dict_of mapping = map (\<lambda>item. (user_column (snd item), fst item)) mapping"
  unfolding rename_dict_of_def
  using fold_dict_set_distinct [where kf = "\<lambda>item. user_column (snd item)" and vf = fst
      and acc = "[]", OF assms]
  by simp

lemma select_columns_present:
  assumes "set cols \<subseteq> set (column_names df)"
  shows "select_columns df cols =
           Inr (df\<lparr>columns := concat (map (\<lambda>c. filter (\<lambda>x. fst x = c) (columns df)) cols)\<rparr>)"
proof -
  from assms have "filter (\<lambda>c. c \<notin> set (column_names df)) cols = []"
    by (auto simp: filter_empty_conv)
  then show ?thesis by (simp add: select_columns_def)
qed

lemma concat_single:
  assumes "distinct (map kf xs)" and "x0 \<in> set xs"
  shows "concat (map (\<lambda>x. if kf x = kf x0 then h x else []) xs) = h x0"
  using assms
proof (induction xs)
  case Nil
  then show ?case by simp
next
  case (Cons x xs)
  show ?case
  proof (cases "x = x0")
    case True
    have "kf y \<noteq> kf x0" if "y \<in> set xs" for y
    proof
      assume "kf y = kf x0"
      with that have "kf x0 \<in> kf ` set xs" by (metis imageI)
      with Cons.prems(1) True show False by simp
    qed
    then have "concat (map (\<lambda>x. if kf x = kf x0 then h x else []) xs) = []"
      by (induction xs) auto
    with True show ?thesis by simp
  next
    case False
    with Cons.prems have in_xs: "x0 \<in> set xs" and "kf x \<noteq> kf x0" by auto
    with Cons show ?thesis by simp
  qed
qed

text \<open>
  The columns of the renamed copy: for each entry of the mapping, in order, the columns of
  the source that carry the selected label, under the name of the standard field.
\<close>

lemma renamed_columns:
  assumes "distinct (map (\<lambda>item. user_column (snd item)) mapping)"
  shows "columns (rename_columns (rename_dict_of mapping)
            (df\<lparr>columns := concat (map (\<lambda>c. filter (\<lambda>x. fst x = c) (columns df))
                                     (map fst (rename_dict_of mapping)))\<rparr>)) =
         concat (map (\<lambda>item. map (\<lambda>x. (fst item, snd x))
                                (filter (\<lambda>x. fst x = user_column (snd item)) (columns df))) mapping)"
proof -
  let ?rd = "map (\<lambda>item. (user_column (snd item), fst item)) mapping"
  have rd: "rename_dict_of mapping = ?rd"
    by (rule rename_dict_of_distinct [OF assms])
  have d: "distinct (map fst ?rd)"
    using assms by (simp add: comp_def)
  have look: "map_of ?rd (user_column (snd item)) = Some (fst item)" if "item \<in> set mapping" for item
    using that d by (intro map_of_is_SomeI) auto
  let ?ren = "\<lambda>x. (case map_of ?rd (fst x) of None \<Rightarrow> fst x | Some n \<Rightarrow> n, snd x)"
  let ?F = "\<lambda>item. map ?ren (filter (\<lambda>x. fst x = user_column (snd item)) (columns df))"
  let ?G = "\<lambda>item. map (\<lambda>x. (fst item, snd x))
                      (filter (\<lambda>x. fst x = user_column (snd item)) (columns df))"
  have each: "?F item = ?G item" if "item \<in> set mapping" for item
    by (rule map_cong [OF refl]) (simp add: look [OF that])
  have fg: "map ?F mapping = map ?G mapping"
  proof (rule map_cong [OF refl])
    fix item
    assume "item \<in> set mapping"
    then show "?F item = ?G item" by (rule each)
  qed
  have "columns (rename_columns ?rd
            (df\<lparr>columns := concat (map (\<lambda>c. filter (\<lambda>x. fst x = c) (columns df)) (map fst ?rd))\<rparr>)) =
        concat (map ?F mapping)"
    by (simp add: rename_columns_def map_concat comp_def)
  also have "\<dots> = concat (map ?G mapping)"
    by (simp only: fg)
  finally show ?thesis
    unfolding rd .
qed

text \<open>
  C7, as stated: the columns of the result are exactly the standard fields of the
  mapping. The rename dictionary is keyed by the user column, so when two fields select
  the same column the later field replaces the earlier one: for the mapping that
  \<open>hybrid_map_columns\<close> returns on the frame with the single column \<open>amount\<close>,
  with \<open>quantity\<close> and \<open>price\<close> both on that column, the result has the column
  \<open>price\<close> and no column \<open>quantity\<close>.
\<close>

theorem apply_mapping_counterexample:
  "map fst (hybrid_map_columns lib0 sales_mapper amount_frame (6 / 10) (4 / 10)) = [''quantity'', ''price'']
   \<and> apply_mapping [amount_frame] 0 (hybrid_map_columns lib0 sales_mapper amount_frame (6 / 10) (4 / 10)) =
       Inr ([amount_frame, amount_frame,
             \<lparr>nrows = 3, columns = [(''price'', NumericSeries ''int64'' [Some 1, Some 2, Some 3])]\<rparr>], 2)"
  by code_simp

text \<open>
  C7, amended. For a mapping whose selected user columns all occur in the frame and are
  pairwise different, \<open>apply_mapping\<close> returns a new frame: its columns are exactly the
  standard fields of the mapping, its row count is that of the source, and the values
  under a standard field are the values of the source under the selected column. Every
  frame that existed before the call, the source among them, is unchanged.
\<close>

theorem apply_mapping_renames:
  assumes "df < length st"
    and "distinct (map fst mapping)"
    and "distinct (map (\<lambda>item. user_column (snd item)) mapping)"
    and "\<forall>item \<in> set mapping. user_column (snd item) \<in> set (column_names (st ! df))"
  shows "\<exists>st' out. apply_mapping st df mapping = Inr (st', out)
           \<and> length st \<le> out \<and> out < length st'
           \<and> (\<forall>i < length st. st' ! i = st ! i)
           \<and> set (column_names (st' ! out)) = fst ` set mapping
           \<and> nrows (st' ! out) = nrows (st ! df)
           \<and> (\<forall>item \<in> set mapping.
                 values_of (st' ! out) (fst item) = values_of (st ! df) (user_column (snd item)))"
proof -
  let ?D = "st ! df"
  let ?rd = "rename_dict_of mapping"
  let ?sel = "?D\<lparr>columns := concat (map (\<lambda>c. filter (\<lambda>x. fst x = c) (columns ?D)) (map fst ?rd))\<rparr>"
  let ?G = "\<lambda>item. map (\<lambda>x. (fst item, snd x))
                      (filter (\<lambda>x. fst x = user_column (snd item)) (columns ?D))"
  let ?out = "rename_columns ?rd ?sel"
  let ?st' = "(st @ [?sel]) @ [?out]"
  have rd: "?rd = map (\<lambda>item. (user_column (snd item), fst item)) mapping"
    by (rule rename_dict_of_distinct [OF assms(3)])
  have "set (map fst ?rd) \<subseteq> set (column_names ?D)"
    using assms(4) by (auto simp: rd)
  from select_columns_present [OF this]
  have sel: "select_columns ?D (map fst ?rd) = Inr ?sel" .
  have res: "apply_mapping st df mapping = Inr (?st', Suc (length st))"
    by (simp add: apply_mapping_def Let_def sel nth_append list_update_append)
  have out: "?st' ! Suc (length st) = ?out"
    by (simp add: nth_append)
  have old: "\<forall>i < length st. ?st' ! i = st ! i"
    by (simp add: nth_append)
  have cols: "columns ?out = concat (map ?G mapping)"
    by (rule renamed_columns [OF assms(3)])
  have nonempty: "filter (\<lambda>x. fst x = user_column (snd item)) (columns ?D) \<noteq> []"
    if "item \<in> set mapping" for item
    using assms(4) that by (force simp: column_names_def filter_empty_conv)
  have cn: "column_names ?out = map fst (concat (map ?G mapping))"
    by (simp only: column_names_def cols)
  have names: "set (column_names ?out) = fst ` set mapping"
  proof
    show "set (column_names ?out) \<subseteq> fst ` set mapping"
      unfolding cn by force
    show "fst ` set mapping \<subseteq> set (column_names ?out)"
    proof
      fix f
      assume "f \<in> fst ` set mapping"
      then obtain item where item: "item \<in> set mapping" "f = fst item" by auto
      from nonempty [OF item(1)] obtain x where
        "x \<in> set (filter (\<lambda>x. fst x = user_column (snd item)) (columns ?D))"
        by (cases "filter (\<lambda>x. fst x = user_column (snd item)) (columns ?D)") auto
      then have "(fst item, snd x) \<in> set (?G item)" by force
      with item show "f \<in> set (column_names ?out)"
        unfolding cn by force
    qed
  qed
  have rows: "nrows ?out = nrows ?D"
    by (simp add: rename_columns_def)
  have vals: "values_of ?out (fst item) = values_of ?D (user_column (snd item))"
    if item: "item \<in> set mapping" for item
  proof -
    have "filter (\<lambda>c. fst c = fst item) (concat (map ?G mapping)) =
        concat (map (\<lambda>it. if fst it = fst item then ?G it else []) mapping)"
      by (simp add: filter_concat comp_def cong: if_cong) (rule arg_cong [where f = concat],
          rule map_cong [OF refl], auto simp: filter_map comp_def)
    also have "\<dots> = ?G item"
      by (rule concat_single [OF assms(2) item])
    finally have "filter (\<lambda>c. fst c = fst item) (columns ?out) = ?G item"
      by (simp only: cols)
    then show ?thesis
      by (simp add: values_of_def comp_def)
  qed
  show ?thesis
    using res out old names rows vals
    by (intro exI [of _ ?st'] exI [of _ "Suc (length st)"]) simp
qed

theorem apply_mapping_renames_witness:
  "(\<exists>st' out. apply_mapping [orders_frame] 0 mapping_complete = Inr (st', out)
      \<and> st' ! 0 = orders_frame
      \<and> set (column_names (st' ! out)) = {''customerid'', ''invoicedate'', ''quantity'', ''unitprice''}
      \<and> nrows (st' ! out) = 3
      \<and> values_of (st' ! out) ''quantity'' = [NumericSeries ''int64'' [Some 5, Some 10, Some 3]])"
proof -
  have a: "0 < length [orders_frame]" by simp
  have b: "distinct (map fst mapping_complete)"
    by (simp add: mapping_complete_def)
  have c: "distinct (map (\<lambda>item. user_column (snd item)) mapping_complete)"
    by (simp add: mapping_complete_def fuzzy_entry_def)
  have d: "\<forall>item \<in> set mapping_complete. user_column (snd item) \<in> set (column_names ([orders_frame] ! 0))"
    by (simp add: mapping_complete_def fuzzy_entry_def orders_frame_def column_names_def)
  have q: "(''quantity'', fuzzy_entry ''Quantity'') \<in> set mapping_complete"
    by (simp add: mapping_complete_def)
  have k: "fst ` set mapping_complete = {''customerid'', ''invoicedate'', ''quantity'', ''unitprice''}"
    by (simp add: mapping_complete_def)
  have v: "values_of orders_frame ''Quantity'' = [NumericSeries ''int64'' [Some 5, Some 10, Some 3]]"
    by (simp add: values_of_def orders_frame_def)
  have n: "nrows orders_frame = 3"
    by (simp add: orders_frame_def)
  from apply_mapping_renames [OF a b c d] obtain st' out where
    r: "apply_mapping [orders_frame] 0 mapping_complete = Inr (st', out)"
    "\<forall>i < length [orders_frame]. st' ! i = [orders_frame] ! i"
    "set (column_names (st' ! out)) = fst ` set mapping_complete"
    "nrows (st' ! out) = nrows ([orders_frame] ! 0)"
    "\<forall>item \<in> set mapping_complete.
        values_of (st' ! out) (fst item) = values_of ([orders_frame] ! 0) (user_column (snd item))"
    by blast
  from r(5) q have "values_of (st' ! out) ''quantity'' = values_of orders_frame ''Quantity''"
    by (fastforce simp: fuzzy_entry_def)
  with r k v n show ?thesis
    by (intro exI [of _ st'] exI [of _ out]) simp
qed

end
